theory Spec2Isabelle
  imports Main "HOL-Library.AList"
begin

section \<open>The device plugin of the DPU operator\<close>

text \<open>
  A shallow embedding of \<^verbatim>\<open>daemon/device-plugin/deviceplugin.go\<close>. Every method of
  \<^verbatim>\<open>nfResources\<close> takes the receiver as a value and returns the updated receiver next
  to its Go results. A Go \<^verbatim>\<open>map\<close> is an association list read with \<open>map_of\<close> and
  written with \<open>AList.update\<close>; the order of the list stands for the order in which
  \<^verbatim>\<open>range\<close> happens to visit the map, which Go leaves open, and no theorem below
  depends on it. A Go \<^verbatim>\<open>string\<close> is a \<open>string\<close> (a list of bytes).
\<close>

subsection \<open>Constants\<close>

text \<open>
  \<open>Healthy\<close>, \<open>Unhealthy\<close>, \<open>DevicePluginPath\<close> and \<open>pluginapi_Version\<close> are constants of the
  kubelet device plugin API (\<^verbatim>\<open>k8s.io/kubelet/pkg/apis/deviceplugin/v1beta1\<close>);
  \<open>pluginEndpoint\<close> and \<open>resourceName\<close> are declared in the file itself.
\<close>

definition Healthy :: string where
  "Healthy = ''Healthy''"

definition Unhealthy :: string where
  "Unhealthy = ''Unhealthy''"

definition DevicePluginPath :: string where
  "DevicePluginPath = ''/var/lib/kubelet/device-plugins/''"

definition pluginapi_Version :: string where
  "pluginapi_Version = ''v1beta1''"

definition pluginEndpoint :: string where
  "pluginEndpoint = ''sriovNet.sock''"

definition resourceName :: string where
  "resourceName = ''openshift.io/dpu''"

subsection \<open>Errors and log entries\<close>

text \<open>
  A Go \<^verbatim>\<open>error\<close> is its message, together with what \<^verbatim>\<open>os.IsNotExist\<close> says about
  it. \<open>errorString\<close> is what \<^verbatim>\<open>fmt.Errorf\<close> and the libraries produce, \<open>notExistError\<close>
  is the error of a system call on a path that does not exist, and \<open>runtimePanic\<close> stands
  for a Go panic (a nil pointer dereference), which no caller receives as an ordinary
  error value.
\<close>

datatype error = errorString string | notExistError string | runtimePanic string

fun Error :: "error \<Rightarrow> string" where
  "Error (errorString s) = s"
| "Error (notExistError s) = s"
| "Error (runtimePanic s) = s"

fun os_IsNotExist :: "error \<Rightarrow> bool" where
  "os_IsNotExist (notExistError s) = True"
| "os_IsNotExist (errorString s) = False"
| "os_IsNotExist (runtimePanic s) = False"

subsection \<open>The data model\<close>

record Device =
  ID :: string
  Health :: string

record ListAndWatchResponse =
  Devices :: "Device list"

record ContainerAllocateRequest =
  DevicesIDs :: "string list"

record AllocateRequest =
  ContainerRequests :: "ContainerAllocateRequest list"

record ContainerAllocateResponse =
  Envs :: "(string \<times> string) list"

record AllocateResponse =
  ContainerResponses :: "ContainerAllocateResponse list"

text \<open>
  What \<^verbatim>\<open>nf.log\<close> has been given so far is part of the state: \<open>LogInfo\<close> for
  \<^verbatim>\<open>log.Info(msg, key, value, ...)\<close> and \<open>LogError\<close> for \<^verbatim>\<open>log.Error(err, msg, ...)\<close>.
\<close>

datatype log_value = StringValue string | ResponseValue ListAndWatchResponse

datatype log_entry =
    LogInfo string "(string \<times> log_value) list"
  | LogError error string "(string \<times> log_value) list"

text \<open>
  A \<^verbatim>\<open>*grpc.ClientConn\<close> is known by the target it was dialled to, and a
  \<^verbatim>\<open>pb.DeviceServiceClient\<close> by the connection it was made from. A \<^verbatim>\<open>*grpc.Server\<close> has
  the services registered with it and is idle, serving or stopped.
\<close>

datatype ClientConn = ClientConn string

datatype DeviceServiceClient = NewDeviceServiceClient ClientConn

datatype ServerState = Idle | Serving | Stopped

record grpc_Server =
  services :: "string list"
  state :: ServerState

definition grpc_NewServer :: grpc_Server where
  "grpc_NewServer = \<lparr>services = [], state = Idle\<rparr>"

definition grpc_Stop :: "grpc_Server \<Rightarrow> grpc_Server" where
  "grpc_Stop srv = srv\<lparr>state := Stopped\<rparr>"

text \<open>
  The struct \<^verbatim>\<open>nfResources\<close>. A nil \<^verbatim>\<open>grpcServer\<close>, \<^verbatim>\<open>client\<close> or \<^verbatim>\<open>conn\<close> is \<open>None\<close>.
\<close>

record nfResources =
  socketFile :: string
  devices :: "(string \<times> Device) list"
  grpcServer :: "grpc_Server option"
  log :: "log_entry list"
  client :: "DeviceServiceClient option"
  conn :: "ClientConn option"

definition log_Info :: "nfResources \<Rightarrow> string \<Rightarrow> (string \<times> log_value) list \<Rightarrow> nfResources" where
  "log_Info nf msg kvs = nf\<lparr>log := log nf @ [LogInfo msg kvs]\<rparr>"

definition log_Error ::
  "nfResources \<Rightarrow> error \<Rightarrow> string \<Rightarrow> (string \<times> log_value) list \<Rightarrow> nfResources" where
  "log_Error nf err msg kvs = nf\<lparr>log := log nf @ [LogError err msg kvs]\<rparr>"

definition NewGrpcPlugin :: nfResources where
  "NewGrpcPlugin =
     \<lparr>socketFile = pluginEndpoint, devices = [], grpcServer = None, log = [],
      client = None, conn = None\<rparr>"

subsection \<open>Allocate\<close>

text \<open>
  The inner loop of \<^verbatim>\<open>Allocate\<close> over the identities of one container request
  (the loop variable \<^verbatim>\<open>id\<close> is \<open>id'\<close> here). It
  returns at the first identity that is not in the registry or is not healthy, and
  otherwise extends \<open>devName\<close>.
\<close>

fun Allocate_ids ::
  "string list \<Rightarrow> string \<Rightarrow> nfResources \<Rightarrow> (error + string) \<times> nfResources" where
  "Allocate_ids [] devName nf = (Inr devName, nf)"
| "Allocate_ids (id' # ids) devName nf =
     (let nf = log_Info nf ''DeviceID in Allocate:'' [(''id'', StringValue id')] in
      case map_of (devices nf) id' of
        None \<Rightarrow>
          (Inl (errorString (''invalid allocation request with non-existing device: '' @ id')), nf)
      | Some dev \<Rightarrow>
          if Health dev \<noteq> Healthy then
            (Inl (errorString (''invalid allocation request with unhealthy device: '' @ id')), nf)
          else Allocate_ids ids (devName @ id' @ '','') nf)"

text \<open>
  The outer loop over the container requests. \<open>devName\<close> is declared before the loop
  in the source, so it is carried from one container request to the next.
\<close>

fun Allocate_containers ::
  "ContainerAllocateRequest list \<Rightarrow> string \<Rightarrow> AllocateResponse \<Rightarrow> nfResources \<Rightarrow>
     (error + AllocateResponse) \<times> nfResources" where
  "Allocate_containers [] devName resp nf = (Inr resp, nf)"
| "Allocate_containers (container # rest) devName resp nf =
     (case Allocate_ids (DevicesIDs container) devName nf of
        (Inl err, nf) \<Rightarrow> (Inl err, nf)
      | (Inr devName, nf) \<Rightarrow>
          (let nf = log_Info nf ''Device(s) allocated:'' [(''devName'', StringValue devName)];
               envmap = AList.update ''NF-DEV'' devName [];
               containerResp = \<lparr>Envs = envmap\<rparr>
           in Allocate_containers rest devName
                (resp\<lparr>ContainerResponses := ContainerResponses resp @ [containerResp]\<rparr>) nf))"

definition Allocate ::
  "nfResources \<Rightarrow> AllocateRequest \<Rightarrow> (error + AllocateResponse) \<times> nfResources" where
  "Allocate nf rqt =
     Allocate_containers (ContainerRequests rqt) '''' \<lparr>ContainerResponses = []\<rparr> nf"

subsection \<open>The list-and-watch stream\<close>

text \<open>
  The stream of a \<^verbatim>\<open>ListAndWatch\<close> call, seen from the server: the responses pushed so
  far, and what the transport will answer to the coming calls of \<^verbatim>\<open>Send\<close>, one entry
  per call (\<open>None\<close> for success; when the list is used up every push succeeds).
\<close>

record DevicePlugin_ListAndWatchServer =
  sent :: "ListAndWatchResponse list"
  outcomes :: "error option list"

definition stream_Send ::
  "DevicePlugin_ListAndWatchServer \<Rightarrow> ListAndWatchResponse \<Rightarrow>
     error option \<times> DevicePlugin_ListAndWatchServer" where
  "stream_Send stream resp =
     (case outcomes stream of
        [] \<Rightarrow> (None, stream\<lparr>sent := sent stream @ [resp]\<rparr>)
      | None # rest \<Rightarrow> (None, stream\<lparr>sent := sent stream @ [resp], outcomes := rest\<rparr>)
      | Some err # rest \<Rightarrow> (Some err, stream\<lparr>outcomes := rest\<rparr>))"

text \<open>
  \<^verbatim>\<open>sendDevices\<close> builds one response from the whole registry and pushes it. When the
  push fails it logs the error, stops the gRPC server and returns the error; stopping a
  nil server is a nil pointer dereference.
\<close>

definition sendDevices ::
  "nfResources \<Rightarrow> DevicePlugin_ListAndWatchServer \<Rightarrow>
     error option \<times> nfResources \<times> DevicePlugin_ListAndWatchServer" where
  "sendDevices nf stream =
     (let resp = \<lparr>Devices = map (\<lambda>(key, dev). \<lparr>ID = ID dev, Health = Health dev\<rparr>) (devices nf)\<rparr>;
          nf = log_Info nf ''SendDevices:'' [(''resp'', ResponseValue resp)]
      in case stream_Send stream resp of
           (Some err, stream) \<Rightarrow>
             (let nf = log_Error nf err ''Cannot send devices to ListAndWatch server'' [] in
              case grpcServer nf of
                None \<Rightarrow>
                  (Some (runtimePanic ''invalid memory address or nil pointer dereference''),
                   nf, stream)
              | Some srv \<Rightarrow> (Some err, nf\<lparr>grpcServer := Some (grpc_Stop srv)\<rparr>, stream))
         | (None, stream) \<Rightarrow> (None, nf, stream))"

definition getDeviceState :: "nfResources \<Rightarrow> string \<Rightarrow> string" where
  "getDeviceState nf DeviceName = Healthy"

text \<open>
  \<^verbatim>\<open>changed\<close> visits every entry of the registry once and writes back the entries
  whose health differs from \<^verbatim>\<open>getDeviceState\<close>. The entries visited are those of the
  registry when the loop starts: the loop writes only the key it is visiting, so that is
  the value \<^verbatim>\<open>range\<close> yields for a key when it reaches it.
\<close>

fun changed_loop ::
  "(string \<times> Device) list \<Rightarrow> bool \<Rightarrow> nfResources \<Rightarrow> bool \<times> nfResources" where
  "changed_loop [] changed' nf = (changed', nf)"
| "changed_loop ((id', dev) # rest) changed' nf =
     (let state = getDeviceState nf id' in
      if Health dev \<noteq> state then
        changed_loop rest True
          (nf\<lparr>devices := AList.update id' (dev\<lparr>Health := state\<rparr>) (devices nf)\<rparr>)
      else changed_loop rest changed' nf)"

definition changed :: "nfResources \<Rightarrow> bool \<times> nfResources" where
  "changed nf = changed_loop (devices nf) False nf"

text \<open>
  \<^verbatim>\<open>ListAndWatch\<close> never leaves its loop unless a push fails, so the model runs a given
  number of iterations of the loop. One iteration is \<open>ListAndWatch_body\<close>: push when the
  flag \<^verbatim>\<open>changed\<close> (here \<open>changed'\<close>) is set, and return if the push fails; sleep five
  seconds, which the clock counts; then compute the new flag with \<^verbatim>\<open>nf.changed()\<close>. The
  result \<open>Inl err\<close> says that the method has returned \<open>err\<close>, and \<open>Inr c\<close> that it is
  still in its loop, with the flag \<open>c\<close>. The flag is true at the start, and the clock
  starts at zero.
\<close>

definition ListAndWatch_body ::
  "bool \<Rightarrow> nfResources \<Rightarrow> DevicePlugin_ListAndWatchServer \<Rightarrow> nat \<Rightarrow>
     (error + bool) \<times> nfResources \<times> DevicePlugin_ListAndWatchServer \<times> nat" where
  "ListAndWatch_body changed' nf stream clock =
     (case (if changed' then sendDevices nf stream else (None, nf, stream)) of
        (Some err, nf, stream) \<Rightarrow> (Inl err, nf, stream, clock)
      | (None, nf, stream) \<Rightarrow>
          (let clock = clock + 5;
               (changed', nf) = changed nf
           in (Inr changed', nf, stream, clock)))"

fun ListAndWatch_loop ::
  "nat \<Rightarrow> bool \<Rightarrow> nfResources \<Rightarrow> DevicePlugin_ListAndWatchServer \<Rightarrow> nat \<Rightarrow>
     (error + bool) \<times> nfResources \<times> DevicePlugin_ListAndWatchServer \<times> nat" where
  "ListAndWatch_loop 0 changed' nf stream clock = (Inr changed', nf, stream, clock)"
| "ListAndWatch_loop (Suc n) changed' nf stream clock =
     (case ListAndWatch_body changed' nf stream clock of
        (Inl err, nf, stream, clock) \<Rightarrow> (Inl err, nf, stream, clock)
      | (Inr changed', nf, stream, clock) \<Rightarrow> ListAndWatch_loop n changed' nf stream clock)"

definition ListAndWatch ::
  "nat \<Rightarrow> nfResources \<Rightarrow> DevicePlugin_ListAndWatchServer \<Rightarrow>
     (error + bool) \<times> nfResources \<times> DevicePlugin_ListAndWatchServer \<times> nat" where
  "ListAndWatch n nf stream = ListAndWatch_loop n True nf stream 0"

subsection \<open>The world outside the process\<close>

text \<open>
  Three constants the file uses are declared elsewhere in the repository:
  \<^verbatim>\<open>cnitypes.DaemonBaseDir\<close>, and \<^verbatim>\<open>DeprecatedSockDir\<close> and \<^verbatim>\<open>KubeEndPoint\<close> of the
  package itself. They are parameters of the model.
\<close>

record package_consts =
  DaemonBaseDir :: string
  DeprecatedSockDir :: string
  KubeEndPoint :: string

definition VendorPluginSocketPath :: "package_consts \<Rightarrow> string" where
  "VendorPluginSocketPath K = DaemonBaseDir K @ ''vendor-plugin/vendor-plugin.sock''"

text \<open>
  The service configuration that \<^verbatim>\<open>connectWithRetry\<close> hands to gRPC, as the structure
  of its JSON text: a list of method configurations, each with the key
  \<^verbatim>\<open>waitForReady\<close> and, under the key \<^verbatim>\<open>retryPolicy\<close> (here \<open>policy\<close>), a retry policy.
  The backoffs are in seconds.
\<close>

record RetryPolicy =
  MaxAttempts :: nat
  InitialBackoff :: nat
  MaxBackoff :: nat
  BackoffMultiplier :: nat
  RetryableStatusCodes :: "string list"

record MethodConfig =
  waitForReady :: bool
  policy :: RetryPolicy

record ServiceConfig =
  methodConfig :: "MethodConfig list"

datatype DialOption =
    WithTransportCredentials_insecure
  | WithContextDialer_unix
  | WithBlock
  | WithDefaultServiceConfig ServiceConfig

text \<open>
  A call of \<^verbatim>\<open>grpc.DialContext\<close>: the timeout of its context in seconds (\<open>None\<close> for
  \<^verbatim>\<open>context.Background()\<close>), the target and the options.
\<close>

record DialCall =
  timeout :: "nat option"
  target :: string
  options :: "DialOption list"

text \<open>
  A device in the answer of the vendor plugin (\<^verbatim>\<open>pb.Device\<close>); the code reads its field
  \<^verbatim>\<open>ID\<close> only, which is \<open>pb_ID\<close> here. The request that registers the plugin with the
  kubelet, and the listener that \<^verbatim>\<open>net.Listen\<close> returns, known by its address.
\<close>

record pb_Device =
  pb_ID :: string

record RegisterRequest =
  Version :: string
  Endpoint :: string
  ResourceName :: string

datatype Listener = Listener string

text \<open>
  What the process sees of the world: the paths that exist in the file system; the
  error, if any, with which the system refuses to remove an existing path or to listen
  on an address, and gRPC a dial; what the vendor's \<^verbatim>\<open>GetDevices\<close> call and the
  kubelet's \<^verbatim>\<open>Register\<close> call answer; and the dials and registrations made so far.
\<close>

record world =
  files :: "string list"
  remove_error :: "string \<Rightarrow> error option"
  listen_error :: "string \<Rightarrow> error option"
  dial_error :: "DialCall \<Rightarrow> error option"
  vendor_devices :: "error + pb_Device list"
  register_error :: "error option"
  dialed :: "DialCall list"
  registrations :: "RegisterRequest list"

definition os_Remove :: "world \<Rightarrow> string \<Rightarrow> error option \<times> world" where
  "os_Remove w name =
     (if name \<notin> set (files w) then
        (Some (notExistError (''remove '' @ name @ '': no such file or directory'')), w)
      else case remove_error w name of
             Some err \<Rightarrow> (Some err, w)
           | None \<Rightarrow> (None, w\<lparr>files := removeAll name (files w)\<rparr>))"

definition net_Listen :: "world \<Rightarrow> string \<Rightarrow> (error + Listener) \<times> world" where
  "net_Listen w address =
     (case listen_error w address of
        Some err \<Rightarrow> (Inl err, w)
      | None \<Rightarrow> (Inr (Listener address), w\<lparr>files := List.insert address (files w)\<rparr>))"

definition grpc_DialContext ::
  "world \<Rightarrow> nat option \<Rightarrow> string \<Rightarrow> DialOption list \<Rightarrow> (error + ClientConn) \<times> world" where
  "grpc_DialContext w ctx tgt opts =
     (let call = \<lparr>timeout = ctx, target = tgt, options = opts\<rparr>;
          w = w\<lparr>dialed := dialed w @ [call]\<rparr>
      in case dial_error w call of
           Some err \<Rightarrow> (Inl err, w)
         | None \<Rightarrow> (Inr (ClientConn tgt), w))"

definition grpc_Dial ::
  "world \<Rightarrow> string \<Rightarrow> DialOption list \<Rightarrow> (error + ClientConn) \<times> world" where
  "grpc_Dial w tgt opts = grpc_DialContext w None tgt opts"

definition DeviceService_GetDevices ::
  "DeviceServiceClient \<Rightarrow> world \<Rightarrow> (error + pb_Device list) \<times> world" where
  "DeviceService_GetDevices c w = (vendor_devices w, w)"

definition Registration_Register ::
  "world \<Rightarrow> RegisterRequest \<Rightarrow> error option \<times> world" where
  "Registration_Register w request =
     (register_error w, w\<lparr>registrations := registrations w @ [request]\<rparr>)"

subsection \<open>Paths\<close>

text \<open>
  \<^verbatim>\<open>filepath.Join\<close> of the Go library on Unix: it joins the elements, from the first
  that is not empty, with a slash, and cleans the result. \<open>filepath_Clean\<close> works
  on the elements between the slashes, which \<open>split_path\<close> cuts out (its first
  argument is the element it is reading, reversed): it drops empty elements and \<open>.\<close>,
  lets \<open>..\<close> remove the element before it (at the root it is dropped, and in a relative
  path that has nothing to remove it is kept), and gives \<open>.\<close> for an empty result.
\<close>

fun strings_Join :: "string list \<Rightarrow> string \<Rightarrow> string" where
  "strings_Join [] sep = []"
| "strings_Join [e] sep = e"
| "strings_Join (e # es) sep = e @ sep @ strings_Join es sep"

fun split_path :: "string \<Rightarrow> string \<Rightarrow> string list" where
  "split_path e [] = [rev e]"
| "split_path e (c # cs) =
     (if c = CHR ''/'' then rev e # split_path [] cs else split_path (c # e) cs)"

fun clean_elems :: "bool \<Rightarrow> string list \<Rightarrow> string list \<Rightarrow> string list" where
  "clean_elems rooted out [] = rev out"
| "clean_elems rooted out (e # es) =
     (if e = [] \<or> e = ''.'' then clean_elems rooted out es
      else if e = ''..'' then
        (case out of
           [] \<Rightarrow> if rooted then clean_elems rooted [] es else clean_elems rooted [''..''] es
         | p # ps \<Rightarrow>
             if p = ''..'' then clean_elems rooted (''..'' # out) es
             else clean_elems rooted ps es)
      else clean_elems rooted (e # out) es)"

definition filepath_Clean :: "string \<Rightarrow> string" where
  "filepath_Clean path =
     (case path of
        [] \<Rightarrow> ''.''
      | c # cs \<Rightarrow>
          (let rooted = (c = CHR ''/'');
               out = (if rooted then ''/'' else []) @
                     strings_Join (clean_elems rooted [] (split_path [] path)) ''/''
           in if out = [] then ''.'' else out))"

fun filepath_Join :: "string list \<Rightarrow> string" where
  "filepath_Join [] = []"
| "filepath_Join (e # es) =
     (if e \<noteq> [] then filepath_Clean (strings_Join (e # es) ''/'') else filepath_Join es)"

subsection \<open>Connecting to the vendor plugin and discovering the devices\<close>

definition ensureConnected ::
  "package_consts \<Rightarrow> nfResources \<Rightarrow> world \<Rightarrow> error option \<times> nfResources \<times> world" where
  "ensureConnected K nf w =
     (if client nf \<noteq> None then (None, nf, w)
      else
        (let dialOptions = [WithTransportCredentials_insecure, WithContextDialer_unix] in
         case grpc_DialContext w None (VendorPluginSocketPath K) dialOptions of
           (Inl err, w) \<Rightarrow>
             (Some (errorString (''failed to connect to vendor plugin: '' @ Error err)), nf, w)
         | (Inr c, w) \<Rightarrow>
             (None, nf\<lparr>conn := Some c, client := Some (NewDeviceServiceClient c)\<rparr>, w)))"

text \<open>
  The loop of \<^verbatim>\<open>GetDevices\<close> over the devices the vendor plugin returned, and the
  method; the variable \<^verbatim>\<open>Devices\<close> of the source is \<open>Devs\<close> here. After
  \<^verbatim>\<open>ensureConnected\<close> has returned no error the client is set; a call through a nil
  client would be a nil pointer dereference.
\<close>

fun GetDevices_loop :: "pb_Device list \<Rightarrow> nfResources \<Rightarrow> nfResources" where
  "GetDevices_loop [] nf = nf"
| "GetDevices_loop (device # rest) nf =
     (let nf = nf\<lparr>devices :=
                  AList.update (pb_ID device) \<lparr>ID = pb_ID device, Health = Healthy\<rparr> (devices nf)\<rparr>;
          nf = log_Info nf ''Found device'' [(''device.ID'', StringValue (pb_ID device))]
      in GetDevices_loop rest nf)"

definition GetDevices ::
  "package_consts \<Rightarrow> nfResources \<Rightarrow> world \<Rightarrow> error option \<times> nfResources \<times> world" where
  "GetDevices K nf w =
     (case ensureConnected K nf w of
        (Some err, nf, w) \<Rightarrow>
          (Some (errorString (''failed to ensure connection to plugin: '' @ Error err)), nf, w)
      | (None, nf, w) \<Rightarrow>
          (case client nf of
             None \<Rightarrow>
               (Some (runtimePanic ''invalid memory address or nil pointer dereference''), nf, w)
           | Some c \<Rightarrow>
               (case DeviceService_GetDevices c w of
                  (Inl err, w) \<Rightarrow>
                    (Some (errorString (''failed to handle GetDevices request: '' @ Error err)),
                     nf, w)
                | (Inr Devs, w) \<Rightarrow> (None, GetDevices_loop Devs nf, w))))"

subsection \<open>Registration and startup\<close>

definition retryPolicy :: ServiceConfig where
  "retryPolicy =
     \<lparr>methodConfig =
        [\<lparr>waitForReady = True,
          policy = \<lparr>MaxAttempts = 40, InitialBackoff = 1, MaxBackoff = 16,
                    BackoffMultiplier = 2, RetryableStatusCodes = [''UNAVAILABLE'']\<rparr>\<rparr>]\<rparr>"

text \<open>
  \<^verbatim>\<open>connectWithRetry\<close> makes one blocking dial under a context that times out after five
  seconds, with the retry policy as the default service configuration. Whether and when
  the dial gives up is gRPC's affair; the model takes the outcome of the dial from the
  world.
\<close>

definition connectWithRetry ::
  "nfResources \<Rightarrow> world \<Rightarrow> string \<Rightarrow> (error + ClientConn) \<times> nfResources \<times> world" where
  "connectWithRetry nf w endpoint =
     (case grpc_DialContext w (Some 5) endpoint
             [WithTransportCredentials_insecure, WithBlock, WithDefaultServiceConfig retryPolicy] of
        (Inl err, w) \<Rightarrow>
          (Inl err,
           log_Error nf err ''Failed to establish connection with retry''
             [(''endpoint'', StringValue endpoint)],
           w)
      | (Inr c, w) \<Rightarrow> (Inr c, nf, w))"

definition RegisterDevicePluginServer :: "grpc_Server \<Rightarrow> grpc_Server" where
  "RegisterDevicePluginServer srv = srv\<lparr>services := services srv @ [''v1beta1.DevicePlugin'']\<rparr>"

text \<open>
  \<^verbatim>\<open>Serve\<close> runs in a goroutine of its own. The model lets the server start serving at
  the point where the goroutine is started; the error \<^verbatim>\<open>Serve\<close> may return when the
  server ends is only logged, and is left out.
\<close>

definition grpc_Serve :: "grpc_Server \<Rightarrow> Listener \<Rightarrow> grpc_Server" where
  "grpc_Serve srv lis = srv\<lparr>state := Serving\<rparr>"

text \<open>
  \<^verbatim>\<open>RegisterDevicePlugin\<close>. The local variables \<^verbatim>\<open>pluginEndpoint\<close> and
  \<^verbatim>\<open>kubeletEndpoint\<close> of the source are \<open>endpoint\<close> and \<open>kubelet\<close> here. Closing a
  connection has no effect that the program observes.
\<close>

definition RegisterDevicePlugin ::
  "package_consts \<Rightarrow> nfResources \<Rightarrow> world \<Rightarrow> error option \<times> nfResources \<times> world" where
  "RegisterDevicePlugin K nf w =
     (let endpoint = filepath_Join [DevicePluginPath, socketFile nf];
          nf = log_Info nf ''Starting Device Plugin server at:''
                 [(''pluginEndpoint'', StringValue endpoint)]
      in case net_Listen w endpoint of
           (Inl err, w) \<Rightarrow>
             (Some (errorString (''resource '' @ resourceName @
                      '' failed to listen to Device Plugin server: '' @ Error err)), nf, w)
         | (Inr lis, w) \<Rightarrow>
             (let nf = nf\<lparr>grpcServer := Some grpc_NewServer\<rparr>;
                  kubelet = filepath_Join [''unix:'', DeprecatedSockDir K, KubeEndPoint K]
              in case grpc_Dial w kubelet [WithTransportCredentials_insecure] of
                   (Inl err, w) \<Rightarrow>
                     (Some (errorString (''resource '' @ resourceName @
                              '' unable connect to Kubelet: '' @ Error err)), nf, w)
                 | (Inr kubeletConn, w) \<Rightarrow>
                     (let nf = nf\<lparr>grpcServer := map_option RegisterDevicePluginServer (grpcServer nf)\<rparr>;
                          nf = nf\<lparr>grpcServer := map_option (\<lambda>srv. grpc_Serve srv lis) (grpcServer nf)\<rparr>
                      in case connectWithRetry nf w (''unix:'' @ endpoint) of
                           (Inl err, nf, w) \<Rightarrow>
                             (Some (errorString (''resource '' @ resourceName @
                                '' unable to establish test connection with gRPC server: '' @
                                Error err)), nf, w)
                         | (Inr c, nf, w) \<Rightarrow>
                             (let nf = log_Info nf ''Device plugin endpoint started serving:''
                                         [(''resourceName'', StringValue resourceName)];
                                  request = \<lparr>Version = pluginapi_Version,
                                             Endpoint = socketFile nf,
                                             ResourceName = resourceName\<rparr>
                              in case Registration_Register w request of
                                   (Some err, w) \<Rightarrow>
                                     (Some (errorString (''unable to register resource '' @
                                        resourceName @ '' with Kubelet: '' @ Error err)), nf, w)
                                 | (None, w) \<Rightarrow>
                                     (None,
                                      log_Info nf ''Device plugin registered with Kubelet''
                                        [(''resourceName'', StringValue resourceName)],
                                      w)))))"

definition cleanup :: "nfResources \<Rightarrow> world \<Rightarrow> error option \<times> nfResources \<times> world" where
  "cleanup nf w =
     (let endpoint = filepath_Join [DevicePluginPath, socketFile nf] in
      case os_Remove w endpoint of
        (Some err, w) \<Rightarrow> if \<not> os_IsNotExist err then (Some err, nf, w) else (None, nf, w)
      | (None, w) \<Rightarrow> (None, nf, w))"

definition Start ::
  "package_consts \<Rightarrow> nfResources \<Rightarrow> world \<Rightarrow> error option \<times> nfResources \<times> world" where
  "Start K nf w =
     (case cleanup nf w of
        (Some err, nf, w) \<Rightarrow> (Some (errorString (''failed to cleanup: '' @ Error err)), nf, w)
      | (None, nf, w) \<Rightarrow>
          (case GetDevices K nf w of
             (Some err, nf, w) \<Rightarrow>
               (Some (errorString (''failed to get devices: '' @ Error err)), nf, w)
           | (None, nf, w) \<Rightarrow>
               (case RegisterDevicePlugin K nf w of
                  (Some err, nf, w) \<Rightarrow>
                    (Some (errorString (''failed to register the device plugin: '' @ Error err)),
                     nf, w)
                | (None, nf, w) \<Rightarrow> (None, nf, w))))"

subsection \<open>Notions used to state the properties\<close>

text \<open>
  An identity is \<open>present_healthy\<close> when the registry has a record for it whose health
  is \<open>Healthy\<close>: the two checks \<^verbatim>\<open>Allocate\<close> makes. \<open>allocation_error\<close> is the
  error \<^verbatim>\<open>Allocate\<close> returns for an identity that fails one of them, and
  \<open>responses_from\<close> lists the container responses of a request that passes, given the
  \<open>devName\<close> the loop starts with.
\<close>

definition present_healthy :: "(string \<times> Device) list \<Rightarrow> string \<Rightarrow> bool" where
  "present_healthy ds i = (case map_of ds i of None \<Rightarrow> False | Some dev \<Rightarrow> Health dev = Healthy)"

definition allocation_error :: "(string \<times> Device) list \<Rightarrow> string \<Rightarrow> error" where
  "allocation_error ds i =
     (if map_of ds i = None
      then errorString (''invalid allocation request with non-existing device: '' @ i)
      else errorString (''invalid allocation request with unhealthy device: '' @ i))"

fun responses_from :: "string \<Rightarrow> ContainerAllocateRequest list \<Rightarrow> ContainerAllocateResponse list" where
  "responses_from devName [] = []"
| "responses_from devName (c # cs) =
     \<lparr>Envs = [(''NF-DEV'', devName @ concat (map (\<lambda>i. i @ '','') (DevicesIDs c)))]\<rparr> #
     responses_from (devName @ concat (map (\<lambda>i. i @ '','') (DevicesIDs c))) cs"

text \<open>
  A registry is \<open>registry_ok\<close> when every key occurs once, as in a Go map, and every
  record is filed under its own identity; it is \<open>all_healthy\<close> when every record has
  the status \<open>Healthy\<close>.
\<close>

definition registry_ok :: "(string \<times> Device) list \<Rightarrow> bool" where
  "registry_ok ds \<longleftrightarrow> distinct (map fst ds) \<and> list_all (\<lambda>(key, dev). ID dev = key) ds"

definition all_healthy :: "(string \<times> Device) list \<Rightarrow> bool" where
  "all_healthy ds \<longleftrightarrow> list_all (\<lambda>(key, dev). Health dev = Healthy) ds"

text \<open>
  The dial that \<^verbatim>\<open>ensureConnected\<close> makes.
\<close>

definition vendor_dial :: "package_consts \<Rightarrow> DialCall" where
  "vendor_dial K =
     \<lparr>timeout = None, target = VendorPluginSocketPath K,
      options = [WithTransportCredentials_insecure, WithContextDialer_unix]\<rparr>"

text \<open>
  The two operations that write the registry, \<^verbatim>\<open>GetDevices\<close> (in any world) and
  \<^verbatim>\<open>changed\<close>, as events; \<open>after es nf\<close> is the state they leave when they happen
  in the order \<open>es\<close> from the state \<open>nf\<close>.
\<close>

datatype event = Refresh package_consts world | HealthCheck

fun after :: "event list \<Rightarrow> nfResources \<Rightarrow> nfResources" where
  "after [] nf = nf"
| "after (Refresh K w # es) nf = after es (fst (snd (GetDevices K nf w)))"
| "after (HealthCheck # es) nf = after es (snd (changed nf))"

text \<open>
  Inputs for the examples: values for the constants that are declared outside the
  file, and a world with an empty file system in which nothing fails and the vendor
  plugin has no device.
\<close>

definition example_consts :: package_consts where
  "example_consts =
     \<lparr>DaemonBaseDir = ''/var/run/dpu-daemon/'',
      DeprecatedSockDir = ''/var/lib/kubelet/device-plugins'',
      KubeEndPoint = ''kubelet.sock''\<rparr>"

definition quiet_world :: world where
  "quiet_world =
     \<lparr>files = [], remove_error = (\<lambda>name. None), listen_error = (\<lambda>address. None),
      dial_error = (\<lambda>call. None), vendor_devices = Inr [], register_error = None,
      dialed = [], registrations = []\<rparr>"

section \<open>Properties\<close>

subsection \<open>Allocate\<close>

lemma Allocate_ids_frame: "(snd (Allocate_ids ids devName nf))\<lparr>log := log nf\<rparr> = nf"
proof (induction ids arbitrary: devName nf)
  case Nil
  show ?case by simp
next
  case (Cons i ids)
  let ?nf = "log_Info nf ''DeviceID in Allocate:'' [(''id'', StringValue i)]"
  let ?rest = "snd (Allocate_ids ids (devName @ i @ '','') ?nf)"
  have "?rest\<lparr>log := log ?nf\<rparr> = ?nf"
    by (rule Cons.IH)
  then have "(?rest\<lparr>log := log ?nf\<rparr>)\<lparr>log := log nf\<rparr> = ?nf\<lparr>log := log nf\<rparr>"
    by (rule arg_cong)
  then have rest: "?rest\<lparr>log := log nf\<rparr> = nf"
    by (simp add: log_Info_def)
  have here: "?nf\<lparr>log := log nf\<rparr> = nf"
    by (simp add: log_Info_def)
  show ?case
    using here rest by (simp add: Let_def split: option.splits)
qed

lemma Allocate_ids_devices: "devices (snd (Allocate_ids ids devName nf)) = devices nf"
  by (induction ids arbitrary: devName nf)
     (auto simp: Let_def log_Info_def split: option.splits)

lemma Allocate_ids_result:
  "fst (Allocate_ids ids devName nf) =
     (case find (\<lambda>i. \<not> present_healthy (devices nf) i) ids of
        None \<Rightarrow> Inr (devName @ concat (map (\<lambda>i. i @ '','') ids))
      | Some i \<Rightarrow> Inl (allocation_error (devices nf) i))"
  by (induction ids arbitrary: devName nf)
     (auto simp: Let_def log_Info_def present_healthy_def allocation_error_def split: option.splits)

lemma find_append_cases:
  "find P (xs @ ys) = (case find P xs of None \<Rightarrow> find P ys | Some x \<Rightarrow> Some x)"
  by (induction xs) auto

lemma Allocate_containers_devices:
  "devices (snd (Allocate_containers cs devName resp nf)) = devices nf"
proof (induction cs arbitrary: devName resp nf)
  case Nil
  show ?case by simp
next
  case (Cons c cs)
  obtain r nf' where ids: "Allocate_ids (DevicesIDs c) devName nf = (r, nf')"
    by (cases "Allocate_ids (DevicesIDs c) devName nf")
  have d: "devices nf' = devices nf"
    using Allocate_ids_devices [of "DevicesIDs c" devName nf] ids by simp
  show ?case
  proof (cases r)
    case (Inl err)
    with ids d show ?thesis by simp
  next
    case (Inr devName')
    with ids d Cons.IH show ?thesis by (simp add: Let_def log_Info_def)
  qed
qed

lemma Allocate_containers_result:
  "fst (Allocate_containers cs devName resp nf) =
     (case find (\<lambda>i. \<not> present_healthy (devices nf) i) (concat (map DevicesIDs cs)) of
        None \<Rightarrow> Inr (resp\<lparr>ContainerResponses := ContainerResponses resp @ responses_from devName cs\<rparr>)
      | Some i \<Rightarrow> Inl (allocation_error (devices nf) i))"
proof (induction cs arbitrary: devName resp nf)
  case Nil
  show ?case by simp
next
  case (Cons c cs)
  obtain r nf' where ids: "Allocate_ids (DevicesIDs c) devName nf = (r, nf')"
    by (cases "Allocate_ids (DevicesIDs c) devName nf")
  have d: "devices nf' = devices nf"
    using Allocate_ids_devices [of "DevicesIDs c" devName nf] ids by simp
  have r: "r = (case find (\<lambda>i. \<not> present_healthy (devices nf) i) (DevicesIDs c) of
        None \<Rightarrow> Inr (devName @ concat (map (\<lambda>i. i @ '','') (DevicesIDs c)))
      | Some i \<Rightarrow> Inl (allocation_error (devices nf) i))"
    using Allocate_ids_result [of "DevicesIDs c" devName nf] ids by simp
  show ?case
  proof (cases "find (\<lambda>i. \<not> present_healthy (devices nf) i) (DevicesIDs c)")
    case None
    with ids r d Cons.IH show ?thesis
      by (simp add: Let_def log_Info_def find_append_cases split: option.splits)
  next
    case (Some i)
    with ids r show ?thesis
      by (simp add: find_append_cases)
  qed
qed

lemma Allocate_containers_frame:
  "(snd (Allocate_containers cs devName resp nf))\<lparr>log := log nf\<rparr> = nf"
proof (induction cs arbitrary: devName resp nf)
  case Nil
  show ?case by simp
next
  case (Cons c cs)
  obtain r nf' where ids: "Allocate_ids (DevicesIDs c) devName nf = (r, nf')"
    by (cases "Allocate_ids (DevicesIDs c) devName nf")
  have inner: "nf'\<lparr>log := log nf\<rparr> = nf"
    using Allocate_ids_frame [where ids = "DevicesIDs c" and devName = devName and nf = nf] ids
    by simp
  show ?case
  proof (cases r)
    case (Inl err)
    with ids inner show ?thesis by simp
  next
    case (Inr devName')
    let ?nf = "log_Info nf' ''Device(s) allocated:'' [(''devName'', StringValue devName')]"
    let ?resp = "resp\<lparr>ContainerResponses := ContainerResponses resp @
                   [\<lparr>Envs = AList.update ''NF-DEV'' devName' []\<rparr>]\<rparr>"
    let ?rest = "snd (Allocate_containers cs devName' ?resp ?nf)"
    have "?rest\<lparr>log := log ?nf\<rparr> = ?nf"
      by (rule Cons.IH)
    then have "(?rest\<lparr>log := log ?nf\<rparr>)\<lparr>log := log nf\<rparr> = ?nf\<lparr>log := log nf\<rparr>"
      by (rule arg_cong)
    then have "?rest\<lparr>log := log nf\<rparr> = nf'\<lparr>log := log nf\<rparr>"
      by (simp add: log_Info_def)
    with ids Inr inner show ?thesis by (simp add: Let_def)
  qed
qed

lemma responses_from_length: "length (responses_from devName cs) = length cs"
  by (induction cs arbitrary: devName) simp_all

lemma responses_from_keys:
  "r \<in> set (responses_from devName cs) \<Longrightarrow> map fst (Envs r) = [''NF-DEV'']"
  by (induction cs arbitrary: devName) auto

lemma find_first:
  "list_all (\<lambda>x. \<not> P x) pre \<Longrightarrow> P x \<Longrightarrow> find P (pre @ x # post) = Some x"
  by (induction pre) auto

lemma find_None_all: "find P xs = None \<longleftrightarrow> list_all (\<lambda>x. \<not> P x) xs"
  by (induction xs) auto

text \<open>
  Claim C1, as amended. When every identity of every group of the request is in the
  registry with \<open>Healthy\<close> status, \<^verbatim>\<open>Allocate\<close> succeeds with one response per group,
  in request order; the environment of each response has the single key \<^verbatim>\<open>NF-DEV\<close>;
  and the value for the first group is the identities of that group in request order,
  each followed by a comma.
\<close>

theorem Allocate_healthy_groups:
  assumes "list_all (\<lambda>c. list_all (present_healthy (devices nf)) (DevicesIDs c)) (ContainerRequests rqt)"
  shows "\<exists>resp. fst (Allocate nf rqt) = Inr resp \<and>
           length (ContainerResponses resp) = length (ContainerRequests rqt) \<and>
           list_all (\<lambda>r. map fst (Envs r) = [''NF-DEV'']) (ContainerResponses resp) \<and>
           (case ContainerRequests rqt of [] \<Rightarrow> True
            | c # cs \<Rightarrow> Envs (hd (ContainerResponses resp)) =
                [(''NF-DEV'', concat (map (\<lambda>i. i @ '','') (DevicesIDs c)))])"
proof -
  have "list_all (\<lambda>i. \<not> \<not> present_healthy (devices nf) i)
          (concat (map DevicesIDs (ContainerRequests rqt)))"
    using assms by (auto simp: list_all_iff)
  then have "find (\<lambda>i. \<not> present_healthy (devices nf) i)
          (concat (map DevicesIDs (ContainerRequests rqt))) = None"
    by (simp only: find_None_all)
  then have res: "fst (Allocate nf rqt) =
      Inr \<lparr>ContainerResponses = responses_from [] (ContainerRequests rqt)\<rparr>"
    by (simp add: Allocate_def Allocate_containers_result)
  show ?thesis
    unfolding res
    by (auto simp: responses_from_length list_all_iff responses_from_keys split: list.splits)
qed

text \<open>
  The scenario of the specification: with \<open>A\<close> healthy and \<open>B\<close> unhealthy, allocating
  the single group \<open>[A]\<close> succeeds with the environment \<open>NF-DEV = A,\<close>.
\<close>

theorem Allocate_healthy_groups_witness:
  "list_all (\<lambda>c. list_all (present_healthy
       [(''A'', \<lparr>ID = ''A'', Health = Healthy\<rparr>), (''B'', \<lparr>ID = ''B'', Health = Unhealthy\<rparr>)])
       (DevicesIDs c)) [\<lparr>DevicesIDs = [''A'']\<rparr>] \<and>
   fst (Allocate
         (NewGrpcPlugin\<lparr>devices :=
            [(''A'', \<lparr>ID = ''A'', Health = Healthy\<rparr>), (''B'', \<lparr>ID = ''B'', Health = Unhealthy\<rparr>)]\<rparr>)
         \<lparr>ContainerRequests = [\<lparr>DevicesIDs = [''A'']\<rparr>]\<rparr>) =
     Inr \<lparr>ContainerResponses = [\<lparr>Envs = [(''NF-DEV'', ''A,'')]\<rparr>]\<rparr>"
  using Allocate_healthy_groups
    [of "NewGrpcPlugin\<lparr>devices :=
            [(''A'', \<lparr>ID = ''A'', Health = Healthy\<rparr>), (''B'', \<lparr>ID = ''B'', Health = Unhealthy\<rparr>)]\<rparr>"
        "\<lparr>ContainerRequests = [\<lparr>DevicesIDs = [''A'']\<rparr>]\<rparr>"]
  by (simp add: present_healthy_def Healthy_def Unhealthy_def NewGrpcPlugin_def Allocate_def
        Let_def log_Info_def)

text \<open>
  Claim C1 as the specification states it fails on a request of two groups, both
  healthy: the key is \<^verbatim>\<open>NF-DEV\<close>, not \<^verbatim>\<open>DEV\<close>, and the value of the second group is
  \<open>A,B,\<close>, the identities of both groups, not \<open>B,\<close>.
\<close>

theorem Allocate_second_group_counterexample:
  "fst (Allocate
         (NewGrpcPlugin\<lparr>devices :=
            [(''A'', \<lparr>ID = ''A'', Health = Healthy\<rparr>), (''B'', \<lparr>ID = ''B'', Health = Healthy\<rparr>)]\<rparr>)
         \<lparr>ContainerRequests = [\<lparr>DevicesIDs = [''A'']\<rparr>, \<lparr>DevicesIDs = [''B'']\<rparr>]\<rparr>) =
     Inr \<lparr>ContainerResponses =
           [\<lparr>Envs = [(''NF-DEV'', ''A,'')]\<rparr>, \<lparr>Envs = [(''NF-DEV'', ''A,B,'')]\<rparr>]\<rparr>"
  by (simp add: Healthy_def NewGrpcPlugin_def Allocate_def Let_def log_Info_def)

text \<open>
  Claim C2, as amended. When some requested identity is not in the registry, or is
  there with a status other than \<open>Healthy\<close>, \<^verbatim>\<open>Allocate\<close> fails the whole request and
  returns no response. The error names the first such identity \<open>j\<close> in request order
  (group after group, every identity before it being present and healthy): it is the
  \<^verbatim>\<open>non-existing device\<close> error when \<open>j\<close> is absent, and the \<^verbatim>\<open>unhealthy device\<close> error
  when \<open>j\<close> is present and not healthy.
\<close>

theorem Allocate_first_offender:
  assumes "i \<in> set (concat (map DevicesIDs (ContainerRequests rqt)))"
      and "\<not> present_healthy (devices nf) i"
  shows "\<exists>pre j post.
           concat (map DevicesIDs (ContainerRequests rqt)) = pre @ j # post \<and>
           list_all (present_healthy (devices nf)) pre \<and>
           \<not> present_healthy (devices nf) j \<and>
           fst (Allocate nf rqt) =
             Inl (errorString
                   (if map_of (devices nf) j = None
                    then ''invalid allocation request with non-existing device: '' @ j
                    else ''invalid allocation request with unhealthy device: '' @ j))"
proof -
  let ?ids = "concat (map DevicesIDs (ContainerRequests rqt))"
  let ?bad = "\<lambda>i. \<not> present_healthy (devices nf) i"
  from assms have "\<exists>x\<in>set ?ids. ?bad x" by blast
  then have "\<exists>pre j post. ?ids = pre @ j # post \<and> ?bad j \<and> (\<forall>y\<in>set pre. \<not> ?bad y)"
    by (rule split_list_first_prop)
  then obtain pre j post where split: "?ids = pre @ j # post" "?bad j" "\<forall>y\<in>set pre. \<not> ?bad y"
    by blast
  then have pre: "list_all (\<lambda>x. \<not> ?bad x) pre"
    by (simp add: list_all_iff)
  have "find ?bad ?ids = Some j"
    unfolding split(1) using pre split(2) by (rule find_first)
  then have "fst (Allocate nf rqt) = Inl (allocation_error (devices nf) j)"
    by (simp add: Allocate_def Allocate_containers_result)
  with split pre show ?thesis
    by (auto simp: allocation_error_def list_all_iff)
qed

text \<open>
  The scenario of the specification: with \<open>A\<close> healthy and \<open>B\<close> unhealthy, a request
  for \<open>C\<close> fails with the error for the unknown device \<open>C\<close>.
\<close>

theorem Allocate_first_offender_witness:
  "''C'' \<in> set (concat (map DevicesIDs [\<lparr>DevicesIDs = [''C'']\<rparr>])) \<and>
   \<not> present_healthy
       [(''A'', \<lparr>ID = ''A'', Health = Healthy\<rparr>), (''B'', \<lparr>ID = ''B'', Health = Unhealthy\<rparr>)] ''C'' \<and>
   fst (Allocate
         (NewGrpcPlugin\<lparr>devices :=
            [(''A'', \<lparr>ID = ''A'', Health = Healthy\<rparr>), (''B'', \<lparr>ID = ''B'', Health = Unhealthy\<rparr>)]\<rparr>)
         \<lparr>ContainerRequests = [\<lparr>DevicesIDs = [''C'']\<rparr>]\<rparr>) =
     Inl (errorString ''invalid allocation request with non-existing device: C'')"
  using Allocate_first_offender
    [of "''C''" "\<lparr>ContainerRequests = [\<lparr>DevicesIDs = [''C'']\<rparr>]\<rparr>"
        "NewGrpcPlugin\<lparr>devices :=
            [(''A'', \<lparr>ID = ''A'', Health = Healthy\<rparr>), (''B'', \<lparr>ID = ''B'', Health = Unhealthy\<rparr>)]\<rparr>"]
  by (simp add: present_healthy_def Healthy_def Unhealthy_def NewGrpcPlugin_def Allocate_def
        Let_def log_Info_def)

text \<open>
  Claim C2 as the specification states it fails when an earlier identity is rejected
  first: \<open>C\<close> is absent from the registry, but the request \<open>[B, C]\<close> fails with the
  error for the unhealthy device \<open>B\<close>, which does not name \<open>C\<close>.
\<close>

theorem Allocate_absent_identity_counterexample:
  "map_of (devices (NewGrpcPlugin\<lparr>devices :=
      [(''A'', \<lparr>ID = ''A'', Health = Healthy\<rparr>), (''B'', \<lparr>ID = ''B'', Health = Unhealthy\<rparr>)]\<rparr>))
      ''C'' = None \<and>
   fst (Allocate
         (NewGrpcPlugin\<lparr>devices :=
            [(''A'', \<lparr>ID = ''A'', Health = Healthy\<rparr>), (''B'', \<lparr>ID = ''B'', Health = Unhealthy\<rparr>)]\<rparr>)
         \<lparr>ContainerRequests = [\<lparr>DevicesIDs = [''B'', ''C'']\<rparr>]\<rparr>) =
     Inl (errorString ''invalid allocation request with unhealthy device: B'')"
  by (simp add: Healthy_def Unhealthy_def NewGrpcPlugin_def Allocate_def Let_def log_Info_def)

text \<open>
  Claim C8. \<^verbatim>\<open>Allocate\<close> leaves the registry as it was, whether it succeeds or fails:
  the devices are the same before and after the call, and so is every other field but
  the log. Its answer depends on the registry alone, so asking again for the same
  identities gives the same answer.
\<close>

theorem Allocate_frame:
  "devices (snd (Allocate nf rqt)) = devices nf \<and>
   (snd (Allocate nf rqt))\<lparr>log := log nf\<rparr> = nf \<and>
   fst (Allocate (snd (Allocate nf rqt)) rqt) = fst (Allocate nf rqt) \<and>
   fst (Allocate nf rqt) = fst (Allocate (NewGrpcPlugin\<lparr>devices := devices nf\<rparr>) rqt)"
  by (simp add: Allocate_def Allocate_containers_devices Allocate_containers_frame
        Allocate_containers_result cong: option.case_cong)

text \<open>
  The scenario of the specification: allocating \<open>A\<close> leaves the registry as it was
  and adds two entries to the log, and allocating \<open>A\<close> again gives the same answer.
\<close>

theorem Allocate_frame_witness:
  "devices (snd (Allocate
       (NewGrpcPlugin\<lparr>devices :=
          [(''A'', \<lparr>ID = ''A'', Health = Healthy\<rparr>), (''B'', \<lparr>ID = ''B'', Health = Unhealthy\<rparr>)]\<rparr>)
       \<lparr>ContainerRequests = [\<lparr>DevicesIDs = [''A'']\<rparr>]\<rparr>)) =
     [(''A'', \<lparr>ID = ''A'', Health = Healthy\<rparr>), (''B'', \<lparr>ID = ''B'', Health = Unhealthy\<rparr>)] \<and>
   log (snd (Allocate
       (NewGrpcPlugin\<lparr>devices :=
          [(''A'', \<lparr>ID = ''A'', Health = Healthy\<rparr>), (''B'', \<lparr>ID = ''B'', Health = Unhealthy\<rparr>)]\<rparr>)
       \<lparr>ContainerRequests = [\<lparr>DevicesIDs = [''A'']\<rparr>]\<rparr>)) =
     [LogInfo ''DeviceID in Allocate:'' [(''id'', StringValue ''A'')],
      LogInfo ''Device(s) allocated:'' [(''devName'', StringValue ''A,'')]] \<and>
   fst (Allocate
         (snd (Allocate
            (NewGrpcPlugin\<lparr>devices :=
               [(''A'', \<lparr>ID = ''A'', Health = Healthy\<rparr>), (''B'', \<lparr>ID = ''B'', Health = Unhealthy\<rparr>)]\<rparr>)
            \<lparr>ContainerRequests = [\<lparr>DevicesIDs = [''A'']\<rparr>]\<rparr>))
         \<lparr>ContainerRequests = [\<lparr>DevicesIDs = [''A'']\<rparr>]\<rparr>) =
     Inr \<lparr>ContainerResponses = [\<lparr>Envs = [(''NF-DEV'', ''A,'')]\<rparr>]\<rparr>"
  using Allocate_frame
    [of "NewGrpcPlugin\<lparr>devices :=
          [(''A'', \<lparr>ID = ''A'', Health = Healthy\<rparr>), (''B'', \<lparr>ID = ''B'', Health = Unhealthy\<rparr>)]\<rparr>"
        "\<lparr>ContainerRequests = [\<lparr>DevicesIDs = [''A'']\<rparr>]\<rparr>"]
  by (simp add: NewGrpcPlugin_def Allocate_def Let_def log_Info_def Healthy_def Unhealthy_def)

subsection \<open>The connection to the vendor plugin\<close>

lemma ensureConnected_set: "client nf \<noteq> None \<Longrightarrow> ensureConnected K nf w = (None, nf, w)"
  by (simp add: ensureConnected_def)

lemma ensureConnected_unset:
  "client nf = None \<Longrightarrow>
   ensureConnected K nf w =
     (case dial_error w (vendor_dial K) of
        Some err \<Rightarrow>
          (Some (errorString (''failed to connect to vendor plugin: '' @ Error err)), nf,
           w\<lparr>dialed := dialed w @ [vendor_dial K]\<rparr>)
      | None \<Rightarrow>
          (None,
           nf\<lparr>conn := Some (ClientConn (VendorPluginSocketPath K)),
              client := Some (NewDeviceServiceClient (ClientConn (VendorPluginSocketPath K)))\<rparr>,
           w\<lparr>dialed := dialed w @ [vendor_dial K]\<rparr>))"
  by (simp add: ensureConnected_def grpc_DialContext_def vendor_dial_def Let_def
      split: option.splits)

lemma ensureConnected_client:
  "fst (ensureConnected K nf w) = None \<Longrightarrow> client (fst (snd (ensureConnected K nf w))) \<noteq> None"
  by (cases "client nf = None")
     (auto simp: ensureConnected_set ensureConnected_unset split: option.splits)

lemma ensureConnected_devices:
  "devices (fst (snd (ensureConnected K nf w))) = devices nf"
  by (cases "client nf = None")
     (auto simp: ensureConnected_set ensureConnected_unset split: option.splits)

text \<open>
  Claim C9. The connection to the vendor plugin is made on first need and kept. A call
  of \<^verbatim>\<open>ensureConnected\<close> in a state without a client dials the vendor socket, once;
  when the dial succeeds the call stores the connection and the client made from it and
  returns no error. A call in a state that has a client returns no error at once: it
  dials nothing and leaves the state and the world as they are. So after a call that
  succeeded, a further call changes nothing, in whatever world it is made.
\<close>

theorem ensureConnected_memoized:
  "(client nf = None \<longrightarrow>
      dialed (snd (snd (ensureConnected K nf w))) = dialed w @ [vendor_dial K]) \<and>
   (client nf = None \<and> dial_error w (vendor_dial K) = None \<longrightarrow>
      ensureConnected K nf w =
        (None,
         nf\<lparr>conn := Some (ClientConn (VendorPluginSocketPath K)),
            client := Some (NewDeviceServiceClient (ClientConn (VendorPluginSocketPath K)))\<rparr>,
         w\<lparr>dialed := dialed w @ [vendor_dial K]\<rparr>)) \<and>
   (client nf \<noteq> None \<longrightarrow> ensureConnected K nf w = (None, nf, w)) \<and>
   (fst (ensureConnected K nf w) = None \<longrightarrow>
      ensureConnected K (fst (snd (ensureConnected K nf w))) w' =
        (None, fst (snd (ensureConnected K nf w)), w'))"
proof (intro conjI impI)
  assume "client nf = None"
  then show "dialed (snd (snd (ensureConnected K nf w))) = dialed w @ [vendor_dial K]"
    by (simp add: ensureConnected_unset split: option.splits)
next
  assume "client nf = None \<and> dial_error w (vendor_dial K) = None"
  then show "ensureConnected K nf w =
        (None,
         nf\<lparr>conn := Some (ClientConn (VendorPluginSocketPath K)),
            client := Some (NewDeviceServiceClient (ClientConn (VendorPluginSocketPath K)))\<rparr>,
         w\<lparr>dialed := dialed w @ [vendor_dial K]\<rparr>)"
    by (simp add: ensureConnected_unset)
next
  assume "client nf \<noteq> None"
  then show "ensureConnected K nf w = (None, nf, w)"
    by (rule ensureConnected_set)
next
  assume "fst (ensureConnected K nf w) = None"
  then have "client (fst (snd (ensureConnected K nf w))) \<noteq> None"
    by (rule ensureConnected_client)
  then show "ensureConnected K (fst (snd (ensureConnected K nf w))) w' =
        (None, fst (snd (ensureConnected K nf w)), w')"
    by (rule ensureConnected_set)
qed

text \<open>
  A fresh plugin in the quiet world: the first call dials the vendor socket and stores
  the client, and a second call returns the same state and world.
\<close>

theorem ensureConnected_memoized_witness:
  "client NewGrpcPlugin = None \<and>
   dial_error quiet_world (vendor_dial example_consts) = None \<and>
   dialed (snd (snd (ensureConnected example_consts NewGrpcPlugin quiet_world))) =
     [vendor_dial example_consts] \<and>
   fst (ensureConnected example_consts NewGrpcPlugin quiet_world) = None \<and>
   client (fst (snd (ensureConnected example_consts NewGrpcPlugin quiet_world))) =
     Some (NewDeviceServiceClient
            (ClientConn ''/var/run/dpu-daemon/vendor-plugin/vendor-plugin.sock'')) \<and>
   client (fst (snd (ensureConnected example_consts NewGrpcPlugin quiet_world))) \<noteq> None \<and>
   ensureConnected example_consts
       (fst (snd (ensureConnected example_consts NewGrpcPlugin quiet_world)))
       (snd (snd (ensureConnected example_consts NewGrpcPlugin quiet_world))) =
     (None, fst (snd (ensureConnected example_consts NewGrpcPlugin quiet_world)),
      snd (snd (ensureConnected example_consts NewGrpcPlugin quiet_world)))"
  using ensureConnected_memoized
    [of NewGrpcPlugin example_consts quiet_world
        "snd (snd (ensureConnected example_consts NewGrpcPlugin quiet_world))"]
    ensureConnected_memoized
    [of "fst (snd (ensureConnected example_consts NewGrpcPlugin quiet_world))" example_consts
        "snd (snd (ensureConnected example_consts NewGrpcPlugin quiet_world))"
        "snd (snd (ensureConnected example_consts NewGrpcPlugin quiet_world))"]
  by (simp add: example_consts_def quiet_world_def NewGrpcPlugin_def ensureConnected_def
        grpc_DialContext_def VendorPluginSocketPath_def vendor_dial_def Let_def)

subsection \<open>Discovery\<close>

lemma GetDevices_loop_lookup:
  "map_of (devices (GetDevices_loop Devs nf)) i =
     (if i \<in> pb_ID ` set Devs then Some \<lparr>ID = i, Health = Healthy\<rparr> else map_of (devices nf) i)"
  by (induction Devs arbitrary: nf) (auto simp: Let_def log_Info_def update_conv')

lemma GetDevices_loop_keys:
  "fst ` set (devices (GetDevices_loop Devs nf)) = fst ` set (devices nf) \<union> pb_ID ` set Devs"
  by (induction Devs arbitrary: nf) (auto simp: Let_def log_Info_def dom_update)

lemma GetDevices_loop_distinct:
  "distinct (map fst (devices nf)) \<Longrightarrow> distinct (map fst (devices (GetDevices_loop Devs nf)))"
  by (induction Devs arbitrary: nf) (auto simp: Let_def log_Info_def distinct_update)

lemma update_all:
  "list_all Q ds \<Longrightarrow> Q (k, v) \<Longrightarrow> list_all Q (AList.update k v ds)"
  by (induction ds) auto

lemma GetDevices_loop_keyed:
  "list_all (\<lambda>(key, dev). ID dev = key) (devices nf) \<Longrightarrow>
   list_all (\<lambda>(key, dev). ID dev = key) (devices (GetDevices_loop Devs nf))"
  by (induction Devs arbitrary: nf) (simp_all add: Let_def log_Info_def update_all)

lemma GetDevices_loop_healthy:
  "all_healthy (devices nf) \<Longrightarrow> all_healthy (devices (GetDevices_loop Devs nf))"
  unfolding all_healthy_def
  by (induction Devs arbitrary: nf) (simp_all add: Let_def log_Info_def update_all)

lemma GetDevices_loop_registry_ok:
  "registry_ok (devices nf) \<Longrightarrow> registry_ok (devices (GetDevices_loop Devs nf))"
  by (simp add: registry_ok_def GetDevices_loop_distinct GetDevices_loop_keyed)

lemma GetDevices_success:
  assumes "GetDevices K nf w = (None, nf', w')"
  shows "\<exists>Devs. vendor_devices w = Inr Devs \<and>
           nf' = GetDevices_loop Devs (fst (snd (ensureConnected K nf w)))"
proof -
  obtain r nf1 w1 where e: "ensureConnected K nf w = (r, nf1, w1)"
    by (cases "ensureConnected K nf w") auto
  have w1: "vendor_devices w1 = vendor_devices w"
    using e by (cases "client nf = None")
      (auto simp: ensureConnected_set ensureConnected_unset split: option.splits)
  show ?thesis
    using assms e w1
    by (auto simp: GetDevices_def DeviceService_GetDevices_def split: option.splits sum.splits)
qed

lemma filter_distinct_key:
  "distinct (map f xs) \<Longrightarrow> x \<in> set xs \<Longrightarrow> filter (\<lambda>y. f y = f x) xs = [x]"
proof (induction xs)
  case Nil
  then show ?case by simp
next
  case (Cons a xs)
  show ?case
  proof (cases "a = x")
    case True
    have "f x \<notin> f ` set xs"
      using Cons.prems(1) True by simp
    then have "\<forall>y\<in>set xs. f y \<noteq> f x"
      by (metis imageI)
    then have "filter (\<lambda>y. f y = f x) xs = []"
      by (simp add: filter_empty_conv)
    with True show ?thesis by simp
  next
    case False
    with Cons.prems have "x \<in> set xs" "f a \<noteq> f x" "distinct (map f xs)"
      by auto
    with Cons.IH show ?thesis by simp
  qed
qed

lemma registry_ok_ids: "registry_ok ds \<Longrightarrow> map ID (map snd ds) = map fst ds"
  unfolding registry_ok_def by (induction ds) auto

lemma registry_ok_record:
  assumes "registry_ok ds" and "map_of ds k = Some v"
  shows "filter (\<lambda>dev. ID dev = k) (map snd ds) = [v]"
proof -
  have ids: "map ID (map snd ds) = map fst ds"
    using assms(1) by (rule registry_ok_ids)
  have d: "distinct (map ID (map snd ds))"
    unfolding ids using assms(1) by (simp add: registry_ok_def)
  have mem: "(k, v) \<in> set ds"
    using assms(2) by (rule map_of_SomeD)
  then have v: "v \<in> set (map snd ds)" by force
  have "ID v = k"
    using assms(1) mem by (auto simp: registry_ok_def list_all_iff)
  with filter_distinct_key [OF d v] show ?thesis by simp
qed

text \<open>
  Claim C3. Let \<^verbatim>\<open>GetDevices\<close> succeed on a well-formed registry, the vendor plugin
  having returned the devices \<open>Devs\<close>. Then for every identity in \<open>Devs\<close> the registry
  holds the record of that identity with \<open>Healthy\<close> status, and it is the only record of
  the registry with that identity. The registry is still well-formed, so its identities
  are unique. Its keys are the keys it had and the identities in \<open>Devs\<close>.
\<close>

theorem GetDevices_registry:
  assumes "GetDevices K nf w = (None, nf', w')" and "registry_ok (devices nf)"
  shows "\<exists>Devs. vendor_devices w = Inr Devs \<and>
           list_all (\<lambda>device.
              map_of (devices nf') (pb_ID device) = Some \<lparr>ID = pb_ID device, Health = Healthy\<rparr> \<and>
              filter (\<lambda>dev. ID dev = pb_ID device) (map snd (devices nf')) =
                [\<lparr>ID = pb_ID device, Health = Healthy\<rparr>]) Devs \<and>
           registry_ok (devices nf') \<and>
           distinct (map ID (map snd (devices nf'))) \<and>
           fst ` set (devices nf') = fst ` set (devices nf) \<union> pb_ID ` set Devs"
proof -
  let ?nf = "fst (snd (ensureConnected K nf w))"
  from assms(1) obtain Devs where Devs: "vendor_devices w = Inr Devs"
    and nf': "nf' = GetDevices_loop Devs ?nf"
    using GetDevices_success by blast
  have same: "devices ?nf = devices nf"
    by (rule ensureConnected_devices)
  have ok: "registry_ok (devices nf')"
    unfolding nf' using assms(2) same by (simp add: GetDevices_loop_registry_ok)
  have look: "map_of (devices nf') (pb_ID device) = Some \<lparr>ID = pb_ID device, Health = Healthy\<rparr>"
    if "device \<in> set Devs" for device
    unfolding nf' using that by (simp add: GetDevices_loop_lookup)
  have one: "filter (\<lambda>dev. ID dev = pb_ID device) (map snd (devices nf')) =
                [\<lparr>ID = pb_ID device, Health = Healthy\<rparr>]"
    if "device \<in> set Devs" for device
    using ok look [OF that] by (rule registry_ok_record)
  have uniq: "distinct (map ID (map snd (devices nf')))"
    unfolding registry_ok_ids [OF ok] using ok by (simp add: registry_ok_def)
  have keys: "fst ` set (devices nf') = fst ` set (devices nf) \<union> pb_ID ` set Devs"
    unfolding nf' by (simp add: GetDevices_loop_keys same)
  show ?thesis
    using Devs look one ok uniq keys by (auto simp: list_all_iff)
qed

text \<open>
  A fresh plugin and a vendor plugin that returns \<open>A\<close>, \<open>B\<close> and \<open>A\<close> again: the
  registry has one healthy record for \<open>A\<close> and one for \<open>B\<close>.
\<close>

theorem GetDevices_registry_witness:
  "fst (GetDevices example_consts NewGrpcPlugin
         (quiet_world\<lparr>vendor_devices :=
            Inr [\<lparr>pb_ID = ''A''\<rparr>, \<lparr>pb_ID = ''B''\<rparr>, \<lparr>pb_ID = ''A''\<rparr>]\<rparr>)) = None \<and>
   registry_ok (devices NewGrpcPlugin) \<and>
   devices (fst (snd (GetDevices example_consts NewGrpcPlugin
         (quiet_world\<lparr>vendor_devices :=
            Inr [\<lparr>pb_ID = ''A''\<rparr>, \<lparr>pb_ID = ''B''\<rparr>, \<lparr>pb_ID = ''A''\<rparr>]\<rparr>)))) =
     [(''A'', \<lparr>ID = ''A'', Health = Healthy\<rparr>), (''B'', \<lparr>ID = ''B'', Health = Healthy\<rparr>)]"
  using GetDevices_registry
    [of example_consts NewGrpcPlugin
        "quiet_world\<lparr>vendor_devices :=
            Inr [\<lparr>pb_ID = ''A''\<rparr>, \<lparr>pb_ID = ''B''\<rparr>, \<lparr>pb_ID = ''A''\<rparr>]\<rparr>"
        "fst (snd (GetDevices example_consts NewGrpcPlugin
         (quiet_world\<lparr>vendor_devices :=
            Inr [\<lparr>pb_ID = ''A''\<rparr>, \<lparr>pb_ID = ''B''\<rparr>, \<lparr>pb_ID = ''A''\<rparr>]\<rparr>)))"
        "snd (snd (GetDevices example_consts NewGrpcPlugin
         (quiet_world\<lparr>vendor_devices :=
            Inr [\<lparr>pb_ID = ''A''\<rparr>, \<lparr>pb_ID = ''B''\<rparr>, \<lparr>pb_ID = ''A''\<rparr>]\<rparr>)))"]
  by (simp add: example_consts_def quiet_world_def NewGrpcPlugin_def GetDevices_def
        ensureConnected_def grpc_DialContext_def DeviceService_GetDevices_def
        VendorPluginSocketPath_def Let_def log_Info_def registry_ok_def)

subsection \<open>Health\<close>

lemma changed_loop_healthy:
  "all_healthy entries \<Longrightarrow> changed_loop entries c nf = (c, nf)"
  unfolding all_healthy_def
  by (induction entries arbitrary: c nf) (auto simp: getDeviceState_def)

lemma changed_healthy: "all_healthy (devices nf) \<Longrightarrow> changed nf = (False, nf)"
  by (simp add: changed_def changed_loop_healthy)

lemma GetDevices_healthy:
  assumes "all_healthy (devices nf)"
  shows "all_healthy (devices (fst (snd (GetDevices K nf w))))"
proof -
  obtain r nf1 w1 where e: "ensureConnected K nf w = (r, nf1, w1)"
    by (cases "ensureConnected K nf w") auto
  have "devices nf1 = devices nf"
    using ensureConnected_devices [of K nf w] e by simp
  with assms have h: "all_healthy (devices nf1)" by simp
  show ?thesis
    using e h
    by (auto simp: GetDevices_def DeviceService_GetDevices_def GetDevices_loop_healthy
        split: option.splits sum.splits)
qed

lemma after_healthy: "all_healthy (devices nf) \<Longrightarrow> all_healthy (devices (after es nf))"
  by (induction es nf rule: after.induct) (simp_all add: GetDevices_healthy changed_healthy)

lemma GetDevices_registry_ok:
  assumes "registry_ok (devices nf)"
  shows "registry_ok (devices (fst (snd (GetDevices K nf w))))"
proof -
  obtain r nf1 w1 where e: "ensureConnected K nf w = (r, nf1, w1)"
    by (cases "ensureConnected K nf w") auto
  have "devices nf1 = devices nf"
    using ensureConnected_devices [of K nf w] e by simp
  with assms have h: "registry_ok (devices nf1)" by simp
  show ?thesis
    using e h
    by (auto simp: GetDevices_def DeviceService_GetDevices_def GetDevices_loop_registry_ok
        split: option.splits sum.splits)
qed

lemma after_registry_ok:
  "all_healthy (devices nf) \<Longrightarrow> registry_ok (devices nf) \<Longrightarrow>
   registry_ok (devices (after es nf))"
  by (induction es nf rule: after.induct)
     (simp_all add: GetDevices_healthy GetDevices_registry_ok changed_healthy)

text \<open>
  The registry of every state that \<^verbatim>\<open>GetDevices\<close> and \<^verbatim>\<open>changed\<close> can reach from the
  new plugin is well-formed.
\<close>

lemma reachable_registry_ok: "registry_ok (devices (after es NewGrpcPlugin))"
  by (rule after_registry_ok) (simp_all add: all_healthy_def registry_ok_def NewGrpcPlugin_def)

lemma healthy_not_present:
  "all_healthy ds \<Longrightarrow> \<not> present_healthy ds j \<Longrightarrow> map_of ds j = None"
  unfolding all_healthy_def present_healthy_def
  by (auto simp: list_all_iff split: option.splits dest: map_of_SomeD)

lemma Allocate_never_unhealthy:
  assumes "all_healthy (devices nf)"
  shows "fst (Allocate nf rqt) \<noteq>
           Inl (errorString (''invalid allocation request with unhealthy device: '' @ i))"
proof (cases "find (\<lambda>i. \<not> present_healthy (devices nf) i)
                (concat (map DevicesIDs (ContainerRequests rqt)))")
  case None
  then show ?thesis
    by (simp add: Allocate_def Allocate_containers_result)
next
  case (Some j)
  then have "\<not> present_healthy (devices nf) j"
    by (auto simp: find_Some_iff)
  with assms have "map_of (devices nf) j = None"
    by (rule healthy_not_present)
  with Some show ?thesis
    by (simp add: Allocate_def Allocate_containers_result allocation_error_def)
qed

text \<open>
  Claim C10. In every state that \<^verbatim>\<open>GetDevices\<close> and \<^verbatim>\<open>changed\<close> can reach from the new
  plugin, whose registry is empty, every record of the registry has the status
  \<open>Healthy\<close>; so in such a state \<^verbatim>\<open>Allocate\<close> never returns the error for an unhealthy
  device, whatever the request.
\<close>

theorem registry_always_healthy:
  "all_healthy (devices (after es NewGrpcPlugin)) \<and>
   fst (Allocate (after es NewGrpcPlugin) rqt) \<noteq>
     Inl (errorString (''invalid allocation request with unhealthy device: '' @ i))"
proof -
  have "all_healthy (devices NewGrpcPlugin)"
    by (simp add: all_healthy_def NewGrpcPlugin_def)
  then have h: "all_healthy (devices (after es NewGrpcPlugin))"
    by (rule after_healthy)
  from h Allocate_never_unhealthy [OF h] show ?thesis
    by (rule conjI)
qed

text \<open>
  A state reached by a discovery that finds \<open>A\<close> and \<open>B\<close> and a health check: both
  records are healthy, and a request for \<open>B\<close> and the unknown \<open>C\<close> fails with the error
  for \<open>C\<close>.
\<close>

theorem registry_always_healthy_witness:
  "devices (after [Refresh example_consts
                     (quiet_world\<lparr>vendor_devices := Inr [\<lparr>pb_ID = ''A''\<rparr>, \<lparr>pb_ID = ''B''\<rparr>]\<rparr>),
                   HealthCheck] NewGrpcPlugin) =
     [(''A'', \<lparr>ID = ''A'', Health = Healthy\<rparr>), (''B'', \<lparr>ID = ''B'', Health = Healthy\<rparr>)] \<and>
   all_healthy (devices (after [Refresh example_consts
                     (quiet_world\<lparr>vendor_devices := Inr [\<lparr>pb_ID = ''A''\<rparr>, \<lparr>pb_ID = ''B''\<rparr>]\<rparr>),
                   HealthCheck] NewGrpcPlugin)) \<and>
   fst (Allocate (after [Refresh example_consts
                     (quiet_world\<lparr>vendor_devices := Inr [\<lparr>pb_ID = ''A''\<rparr>, \<lparr>pb_ID = ''B''\<rparr>]\<rparr>),
                   HealthCheck] NewGrpcPlugin)
          \<lparr>ContainerRequests = [\<lparr>DevicesIDs = [''B'', ''C'']\<rparr>]\<rparr>) =
     Inl (errorString ''invalid allocation request with non-existing device: C'')"
  using registry_always_healthy
    [of "[Refresh example_consts
            (quiet_world\<lparr>vendor_devices := Inr [\<lparr>pb_ID = ''A''\<rparr>, \<lparr>pb_ID = ''B''\<rparr>]\<rparr>),
          HealthCheck]"
        "\<lparr>ContainerRequests = [\<lparr>DevicesIDs = [''B'', ''C'']\<rparr>]\<rparr>" "''C''"]
  by (simp add: example_consts_def quiet_world_def NewGrpcPlugin_def GetDevices_def
        ensureConnected_def grpc_DialContext_def DeviceService_GetDevices_def
        VendorPluginSocketPath_def Let_def log_Info_def all_healthy_def changed_def
        getDeviceState_def Allocate_def Healthy_def)

subsection \<open>The watch loop\<close>

lemma snapshot_records:
  "map (\<lambda>(key, dev). \<lparr>ID = ID dev, Health = Health dev\<rparr>) ds = map snd ds"
  by (induction ds) auto

lemma sendDevices_ok:
  assumes "fst (sendDevices nf stream) = None"
  shows "\<exists>stream'. sendDevices nf stream =
           (None,
            log_Info nf ''SendDevices:''
              [(''resp'', ResponseValue \<lparr>Devices = map snd (devices nf)\<rparr>)],
            stream') \<and>
           sent stream' = sent stream @ [\<lparr>Devices = map snd (devices nf)\<rparr>]"
  using assms
  by (auto simp: sendDevices_def stream_Send_def Let_def snapshot_records log_Info_def
      split: list.splits option.splits)

lemma sendDevices_failed:
  assumes "outcomes stream = Some err # rest" and "grpcServer nf = Some srv"
  shows "sendDevices nf stream =
           (Some err,
            (log_Error
               (log_Info nf ''SendDevices:''
                  [(''resp'', ResponseValue \<lparr>Devices = map snd (devices nf)\<rparr>)])
               err ''Cannot send devices to ListAndWatch server'' [])
              \<lparr>grpcServer := Some (srv\<lparr>state := Stopped\<rparr>)\<rparr>,
            stream\<lparr>outcomes := rest\<rparr>)"
  using assms
  by (simp add: sendDevices_def stream_Send_def Let_def snapshot_records log_Info_def
      log_Error_def grpc_Stop_def)

lemma ListAndWatch_body_clean:
  "all_healthy (devices nf) \<Longrightarrow>
   ListAndWatch_body False nf stream clock = (Inr False, nf, stream, clock + 5)"
  by (simp add: ListAndWatch_body_def changed_healthy)

lemma ListAndWatch_loop_clean:
  "all_healthy (devices nf) \<Longrightarrow>
   ListAndWatch_loop n False nf stream clock = (Inr False, nf, stream, clock + 5 * n)"
  by (induction n arbitrary: clock) (simp_all add: ListAndWatch_body_clean)

text \<open>
  Claim C4. Start \<^verbatim>\<open>ListAndWatch\<close> on a registry in which every record is healthy, so
  that \<^verbatim>\<open>changed\<close> finds nothing to change, and on a stream whose first push succeeds.
  The flag is set when the loop starts. After any number \<open>n > 0\<close> of iterations the
  method is still in its loop with the flag cleared, the stream has received one
  response, the one that lists the records of the registry, the registry is as it was,
  and the loop has slept five seconds in every iteration.
\<close>

theorem ListAndWatch_pushes_once:
  assumes "all_healthy (devices nf)" and "fst (sendDevices nf stream) = None" and "0 < n"
  shows "ListAndWatch 0 nf stream = (Inr True, nf, stream, 0) \<and>
         (\<exists>nf' stream'.
            ListAndWatch n nf stream = (Inr False, nf', stream', 5 * n) \<and>
            sent stream' = sent stream @ [\<lparr>Devices = map snd (devices nf)\<rparr>] \<and>
            devices nf' = devices nf)"
proof -
  have start: "ListAndWatch 0 nf stream = (Inr True, nf, stream, 0)"
    by (simp add: ListAndWatch_def)
  let ?nf = "log_Info nf ''SendDevices:''
               [(''resp'', ResponseValue \<lparr>Devices = map snd (devices nf)\<rparr>)]"
  from assms(2) obtain stream' where
    push: "sendDevices nf stream = (None, ?nf, stream')" and
    sent: "sent stream' = sent stream @ [\<lparr>Devices = map snd (devices nf)\<rparr>]"
    using sendDevices_ok by blast
  have same: "devices ?nf = devices nf"
    by (simp add: log_Info_def)
  with assms(1) have healthy: "all_healthy (devices ?nf)"
    by simp
  from assms(3) obtain m where n: "n = Suc m"
    by (cases n) auto
  have first: "ListAndWatch_body True nf stream 0 = (Inr False, ?nf, stream', 5)"
    using push healthy by (simp add: ListAndWatch_body_def changed_healthy)
  have "ListAndWatch n nf stream = ListAndWatch_loop m False ?nf stream' 5"
    unfolding n ListAndWatch_def using first by simp
  also have "\<dots> = (Inr False, ?nf, stream', 5 + 5 * m)"
    using healthy by (rule ListAndWatch_loop_clean)
  finally have "ListAndWatch n nf stream = (Inr False, ?nf, stream', 5 * n)"
    by (simp add: n)
  with sent same start show ?thesis
    by blast
qed

text \<open>
  One healthy device and a stream on which every push succeeds: after three iterations
  one response has been pushed and fifteen seconds have passed.
\<close>

theorem ListAndWatch_pushes_once_witness:
  "all_healthy [(''A'', \<lparr>ID = ''A'', Health = Healthy\<rparr>)] \<and>
   fst (sendDevices (NewGrpcPlugin\<lparr>devices := [(''A'', \<lparr>ID = ''A'', Health = Healthy\<rparr>)]\<rparr>)
         \<lparr>sent = [], outcomes = []\<rparr>) = None \<and>
   (0::nat) < 3 \<and>
   fst (ListAndWatch 3 (NewGrpcPlugin\<lparr>devices := [(''A'', \<lparr>ID = ''A'', Health = Healthy\<rparr>)]\<rparr>)
         \<lparr>sent = [], outcomes = []\<rparr>) = Inr False \<and>
   sent (fst (snd (snd (ListAndWatch 3
         (NewGrpcPlugin\<lparr>devices := [(''A'', \<lparr>ID = ''A'', Health = Healthy\<rparr>)]\<rparr>)
         \<lparr>sent = [], outcomes = []\<rparr>)))) =
     [\<lparr>Devices = [\<lparr>ID = ''A'', Health = Healthy\<rparr>]\<rparr>] \<and>
   snd (snd (snd (ListAndWatch 3
         (NewGrpcPlugin\<lparr>devices := [(''A'', \<lparr>ID = ''A'', Health = Healthy\<rparr>)]\<rparr>)
         \<lparr>sent = [], outcomes = []\<rparr>))) = 15"
  using ListAndWatch_pushes_once
    [of "NewGrpcPlugin\<lparr>devices := [(''A'', \<lparr>ID = ''A'', Health = Healthy\<rparr>)]\<rparr>"
        "\<lparr>sent = [], outcomes = []\<rparr>" 3]
  by (auto simp: NewGrpcPlugin_def all_healthy_def sendDevices_def stream_Send_def Let_def
        log_Info_def)

text \<open>
  Claim C5. Let the next push on the stream fail with \<open>err\<close>, and let the plugin have
  a gRPC server. Then \<^verbatim>\<open>sendDevices\<close> returns \<open>err\<close> and leaves the server stopped.
  Whenever \<^verbatim>\<open>ListAndWatch\<close> is in an iteration with the flag set, and in particular in
  its first, the method returns \<open>err\<close> and the server is stopped, for all the streams it
  serves; nothing has been pushed on the stream.
\<close>

theorem push_failure_stops_server:
  assumes "outcomes stream = Some err # rest" and "grpcServer nf = Some srv"
  shows "fst (sendDevices nf stream) = Some err \<and>
         grpcServer (fst (snd (sendDevices nf stream))) = Some (srv\<lparr>state := Stopped\<rparr>) \<and>
         fst (ListAndWatch_loop (Suc n) True nf stream clock) = Inl err \<and>
         grpcServer (fst (snd (ListAndWatch_loop (Suc n) True nf stream clock))) =
           Some (srv\<lparr>state := Stopped\<rparr>) \<and>
         sent (fst (snd (snd (ListAndWatch_loop (Suc n) True nf stream clock)))) = sent stream \<and>
         fst (ListAndWatch (Suc n) nf stream) = Inl err \<and>
         grpcServer (fst (snd (ListAndWatch (Suc n) nf stream))) = Some (srv\<lparr>state := Stopped\<rparr>)"
proof -
  note push = sendDevices_failed [OF assms]
  have body: "ListAndWatch_body True nf stream c =
      (Inl err, fst (snd (sendDevices nf stream)), stream\<lparr>outcomes := rest\<rparr>, c)" for c
    by (simp add: ListAndWatch_body_def push)
  show ?thesis
    by (simp add: ListAndWatch_def body) (simp add: push log_Error_def log_Info_def)
qed

text \<open>
  A serving plugin whose first push fails: the method returns the error of the push
  and the server is stopped.
\<close>

theorem push_failure_stops_server_witness:
  "outcomes \<lparr>sent = [], outcomes = [Some (errorString ''transport is closing'')]\<rparr> =
     Some (errorString ''transport is closing'') # [] \<and>
   grpcServer (NewGrpcPlugin\<lparr>grpcServer :=
       Some \<lparr>services = [''v1beta1.DevicePlugin''], state = Serving\<rparr>\<rparr>) =
     Some \<lparr>services = [''v1beta1.DevicePlugin''], state = Serving\<rparr> \<and>
   fst (ListAndWatch (Suc 2)
         (NewGrpcPlugin\<lparr>grpcServer :=
            Some \<lparr>services = [''v1beta1.DevicePlugin''], state = Serving\<rparr>\<rparr>)
         \<lparr>sent = [], outcomes = [Some (errorString ''transport is closing'')]\<rparr>) =
     Inl (errorString ''transport is closing'') \<and>
   grpcServer (fst (snd (ListAndWatch (Suc 2)
         (NewGrpcPlugin\<lparr>grpcServer :=
            Some \<lparr>services = [''v1beta1.DevicePlugin''], state = Serving\<rparr>\<rparr>)
         \<lparr>sent = [], outcomes = [Some (errorString ''transport is closing'')]\<rparr>))) =
     Some \<lparr>services = [''v1beta1.DevicePlugin''], state = Stopped\<rparr>"
  using push_failure_stops_server
    [of "\<lparr>sent = [], outcomes = [Some (errorString ''transport is closing'')]\<rparr>"
        "errorString ''transport is closing''" "[]"
        "NewGrpcPlugin\<lparr>grpcServer :=
            Some \<lparr>services = [''v1beta1.DevicePlugin''], state = Serving\<rparr>\<rparr>"
        "\<lparr>services = [''v1beta1.DevicePlugin''], state = Serving\<rparr>" 2 0]
  by (simp add: NewGrpcPlugin_def)

subsection \<open>Startup\<close>

lemma endpoint_path:
  "filepath_Join [DevicePluginPath, pluginEndpoint] = ''/var/lib/kubelet/device-plugins/sriovNet.sock''"
  by code_simp

lemma kubelet_path:
  "filepath_Join [''unix:'', ''/var/lib/kubelet/device-plugins'', ''kubelet.sock''] =
     ''unix:/var/lib/kubelet/device-plugins/kubelet.sock''"
  by code_simp

lemma cleanup_absent:
  "filepath_Join [DevicePluginPath, socketFile nf] \<notin> set (files w) \<Longrightarrow>
   cleanup nf w = (None, nf, w)"
  by (simp add: cleanup_def os_Remove_def)

lemma cleanup_failed:
  "cleanup nf w = (Some err, nf1, w1) \<Longrightarrow> nf1 = nf \<and> w1 = w"
  by (auto simp: cleanup_def os_Remove_def Let_def split: if_splits option.splits)

lemma cleanup_done:
  "cleanup nf w = (None, nf1, w1) \<Longrightarrow> nf1 = nf \<and> (\<exists>fs. w1 = w\<lparr>files := fs\<rparr>)"
proof -
  assume c: "cleanup nf w = (None, nf1, w1)"
  have "w = w\<lparr>files := files w\<rparr>" by simp
  then have keep: "\<exists>fs. w = w\<lparr>files := fs\<rparr>" ..
  show ?thesis
    using c keep
    by (auto simp: cleanup_def os_Remove_def Let_def split: if_splits option.splits)
qed

lemma ensureConnected_world:
  "\<exists>ds. snd (snd (ensureConnected K nf w)) = w\<lparr>dialed := ds\<rparr>"
proof (cases "client nf = None")
  case True
  then show ?thesis
    by (auto simp: ensureConnected_unset split: option.splits)
next
  case False
  have "w = w\<lparr>dialed := dialed w\<rparr>" by simp
  then have "\<exists>ds. w = w\<lparr>dialed := ds\<rparr>" ..
  with False show ?thesis
    by (simp add: ensureConnected_set)
qed

lemma ensureConnected_server:
  "grpcServer (fst (snd (ensureConnected K nf w))) = grpcServer nf \<and>
   socketFile (fst (snd (ensureConnected K nf w))) = socketFile nf"
  by (cases "client nf = None")
     (auto simp: ensureConnected_set ensureConnected_unset split: option.splits)

lemma GetDevices_loop_server:
  "grpcServer (GetDevices_loop Devs nf) = grpcServer nf \<and>
   socketFile (GetDevices_loop Devs nf) = socketFile nf"
  by (induction Devs arbitrary: nf) (simp_all add: Let_def log_Info_def)

lemma GetDevices_frame:
  assumes "GetDevices K nf w = (r, nf', w')"
  shows "grpcServer nf' = grpcServer nf \<and> socketFile nf' = socketFile nf \<and>
         (\<exists>ds. w' = w\<lparr>dialed := ds\<rparr>) \<and> (r \<noteq> None \<longrightarrow> devices nf' = devices nf)"
proof -
  obtain r1 nf1 w1 where e: "ensureConnected K nf w = (r1, nf1, w1)"
    by (cases "ensureConnected K nf w") auto
  from ensureConnected_world [of K nf w] e obtain ds where w1: "w1 = w\<lparr>dialed := ds\<rparr>"
    by auto
  from ensureConnected_server [of K nf w] e
  have s: "grpcServer nf1 = grpcServer nf" "socketFile nf1 = socketFile nf"
    by auto
  from ensureConnected_devices [of K nf w] e have d: "devices nf1 = devices nf"
    by simp
  have keep: "\<exists>ds'. w1 = w\<lparr>dialed := ds'\<rparr>"
    using w1 by blast
  show ?thesis
    using assms e s d keep
    by (auto simp: GetDevices_def DeviceService_GetDevices_def GetDevices_loop_server
        split: option.splits sum.splits)
qed

lemma GetDevices_loop_devices:
  "devices nf1 = devices nf \<Longrightarrow>
   devices (GetDevices_loop Devs nf1) = devices (GetDevices_loop Devs nf)"
  by (induction Devs arbitrary: nf1 nf) (simp_all add: Let_def log_Info_def)

lemma GetDevices_ok:
  assumes "dial_error w = (\<lambda>call. None)" and "vendor_devices w = Inr Devs"
  shows "\<exists>nf' ds. GetDevices K nf w = (None, nf', w\<lparr>dialed := ds\<rparr>) \<and>
           devices nf' = devices (GetDevices_loop Devs nf)"
proof (cases "client nf = None")
  case True
  let ?nf = "nf\<lparr>conn := Some (ClientConn (VendorPluginSocketPath K)),
              client := Some (NewDeviceServiceClient (ClientConn (VendorPluginSocketPath K)))\<rparr>"
  have "GetDevices K nf w =
      (None, GetDevices_loop Devs ?nf, w\<lparr>dialed := dialed w @ [vendor_dial K]\<rparr>)"
    using True assms
    by (simp add: GetDevices_def ensureConnected_unset DeviceService_GetDevices_def)
  moreover have "devices (GetDevices_loop Devs ?nf) = devices (GetDevices_loop Devs nf)"
    by (rule GetDevices_loop_devices) simp
  ultimately show ?thesis by blast
next
  case False
  then obtain c where c: "client nf = Some c" by auto
  have "GetDevices K nf w = (None, GetDevices_loop Devs nf, w\<lparr>dialed := dialed w\<rparr>)"
    using False c assms
    by (simp add: GetDevices_def ensureConnected_set DeviceService_GetDevices_def)
  then show ?thesis by blast
qed

lemma RegisterDevicePlugin_ok:
  assumes "dial_error w = (\<lambda>call. None)" and "listen_error w = (\<lambda>a. None)"
      and "register_error w = None"
  shows "fst (RegisterDevicePlugin K nf w) = None \<and>
         devices (fst (snd (RegisterDevicePlugin K nf w))) = devices nf"
  using assms
  by (simp add: RegisterDevicePlugin_def Let_def net_Listen_def grpc_Dial_def
      grpc_DialContext_def connectWithRetry_def Registration_Register_def log_Info_def)

text \<open>
  Claim C7. \<^verbatim>\<open>cleanup\<close> returns no error, and changes nothing, when the socket file of
  the plugin does not exist. \<^verbatim>\<open>Start\<close> returns no error when the cleanup succeeds, no
  dial and no listen fails, the kubelet accepts the registration and the vendor plugin
  answers with devices \<open>Devs\<close>, however many: the registry is then the one the discovery
  loop makes of \<open>Devs\<close>, and the registry it was before when \<open>Devs\<close> is empty. When a
  step fails \<^verbatim>\<open>Start\<close> returns at once, with the error of the step after the name of
  the step: a failed cleanup leaves the state and the world as they were, and after a
  failed discovery the registry is unchanged, no server has been created and nothing
  has been registered.
\<close>

theorem Start_aborts_or_completes:
  "(filepath_Join [DevicePluginPath, socketFile nf] \<notin> set (files w) \<longrightarrow>
      cleanup nf w = (None, nf, w)) \<and>
   (fst (cleanup nf w) = None \<and> dial_error w = (\<lambda>call. None) \<and>
    listen_error w = (\<lambda>address. None) \<and> register_error w = None \<and>
    vendor_devices w = Inr Devs \<longrightarrow>
      fst (Start K nf w) = None \<and>
      devices (fst (snd (Start K nf w))) = devices (GetDevices_loop Devs nf) \<and>
      (Devs = [] \<longrightarrow> devices (fst (snd (Start K nf w))) = devices nf)) \<and>
   (cleanup nf w = (Some err, nf1, w1) \<longrightarrow>
      Start K nf w = (Some (errorString (''failed to cleanup: '' @ Error err)), nf, w)) \<and>
   (cleanup nf w = (None, nf1, w1) \<and> GetDevices K nf1 w1 = (Some err, nf2, w2) \<longrightarrow>
      Start K nf w = (Some (errorString (''failed to get devices: '' @ Error err)), nf2, w2) \<and>
      devices nf2 = devices nf \<and> grpcServer nf2 = grpcServer nf \<and>
      registrations w2 = registrations w) \<and>
   (cleanup nf w = (None, nf1, w1) \<and> GetDevices K nf1 w1 = (None, nf2, w2) \<and>
    RegisterDevicePlugin K nf2 w2 = (Some err, nf3, w3) \<longrightarrow>
      Start K nf w =
        (Some (errorString (''failed to register the device plugin: '' @ Error err)), nf3, w3))"
proof (intro conjI impI)
  assume "filepath_Join [DevicePluginPath, socketFile nf] \<notin> set (files w)"
  then show "cleanup nf w = (None, nf, w)"
    by (rule cleanup_absent)
next
  assume "cleanup nf w = (Some err, nf1, w1)"
  moreover from this have "nf1 = nf \<and> w1 = w"
    by (rule cleanup_failed)
  ultimately show "Start K nf w = (Some (errorString (''failed to cleanup: '' @ Error err)), nf, w)"
    by (simp add: Start_def)
next
  assume a: "cleanup nf w = (None, nf1, w1) \<and> GetDevices K nf1 w1 = (Some err, nf2, w2)"
  then show "Start K nf w =
      (Some (errorString (''failed to get devices: '' @ Error err)), nf2, w2)"
    by (simp add: Start_def)
  from a cleanup_done [of nf w nf1 w1] obtain fs where c: "nf1 = nf" "w1 = w\<lparr>files := fs\<rparr>"
    by auto
  from a GetDevices_frame [of K nf1 w1 "Some err" nf2 w2] obtain ds where
    g: "grpcServer nf2 = grpcServer nf1" "w2 = w1\<lparr>dialed := ds\<rparr>" "devices nf2 = devices nf1"
    by auto
  from c g show "devices nf2 = devices nf" by simp
  from c g show "grpcServer nf2 = grpcServer nf" by simp
  from c g show "registrations w2 = registrations w" by simp
next
  assume "cleanup nf w = (None, nf1, w1) \<and> GetDevices K nf1 w1 = (None, nf2, w2) \<and>
    RegisterDevicePlugin K nf2 w2 = (Some err, nf3, w3)"
  then show "Start K nf w =
        (Some (errorString (''failed to register the device plugin: '' @ Error err)), nf3, w3)"
    by (simp add: Start_def)
next
  assume a: "fst (cleanup nf w) = None \<and> dial_error w = (\<lambda>call. None) \<and>
    listen_error w = (\<lambda>address. None) \<and> register_error w = None \<and>
    vendor_devices w = Inr Devs"
  obtain nf1 w1 where c: "cleanup nf w = (None, nf1, w1)"
    using a by (cases "cleanup nf w") auto
  from cleanup_done [OF c] obtain fs where c1: "nf1 = nf" "w1 = w\<lparr>files := fs\<rparr>"
    by auto
  have "dial_error w1 = (\<lambda>call. None)" "vendor_devices w1 = Inr Devs"
    using a c1 by simp_all
  from GetDevices_ok [OF this, of K nf1] obtain nf2 ds where
    g: "GetDevices K nf1 w1 = (None, nf2, w1\<lparr>dialed := ds\<rparr>)"
       "devices nf2 = devices (GetDevices_loop Devs nf1)"
    by blast
  let ?w2 = "w1\<lparr>dialed := ds\<rparr>"
  have "dial_error ?w2 = (\<lambda>call. None)" "listen_error ?w2 = (\<lambda>a. None)"
       "register_error ?w2 = None"
    using a c1 by simp_all
  from RegisterDevicePlugin_ok [OF this, of K nf2]
  have r: "fst (RegisterDevicePlugin K nf2 ?w2) = None"
          "devices (fst (snd (RegisterDevicePlugin K nf2 ?w2))) = devices nf2"
    by simp_all
  have s: "Start K nf w = RegisterDevicePlugin K nf2 ?w2"
    using c g(1) r(1) by (cases "RegisterDevicePlugin K nf2 ?w2") (simp add: Start_def)
  show "fst (Start K nf w) = None"
    using s r(1) by simp
  show d: "devices (fst (snd (Start K nf w))) = devices (GetDevices_loop Devs nf)"
    using s r(2) g(2) c1(1) by simp
  show "devices (fst (snd (Start K nf w))) = devices nf" if "Devs = []"
    using d that by simp
qed

text \<open>
  A fresh plugin in the quiet world starts without error, with an empty registry. It
  fails with the wrapped error of the step when the socket file exists and cannot be
  removed, when the vendor plugin refuses the call, and when the kubelet rejects the
  registration.
\<close>

theorem Start_aborts_or_completes_witness:
  "filepath_Join [DevicePluginPath, socketFile NewGrpcPlugin] \<notin> set (files quiet_world) \<and>
   cleanup NewGrpcPlugin quiet_world = (None, NewGrpcPlugin, quiet_world) \<and>
   fst (cleanup NewGrpcPlugin quiet_world) = None \<and>
   dial_error quiet_world = (\<lambda>call. None) \<and>
   listen_error quiet_world = (\<lambda>address. None) \<and>
   register_error quiet_world = None \<and>
   vendor_devices quiet_world = Inr [] \<and>
   fst (Start example_consts NewGrpcPlugin quiet_world) = None \<and>
   devices (fst (snd (Start example_consts NewGrpcPlugin quiet_world))) = [] \<and>
   cleanup NewGrpcPlugin
     (quiet_world\<lparr>files := [''/var/lib/kubelet/device-plugins/sriovNet.sock''],
                  remove_error := (\<lambda>name. Some (errorString ''operation not permitted''))\<rparr>) =
     (Some (errorString ''operation not permitted''), NewGrpcPlugin,
      quiet_world\<lparr>files := [''/var/lib/kubelet/device-plugins/sriovNet.sock''],
                  remove_error := (\<lambda>name. Some (errorString ''operation not permitted''))\<rparr>) \<and>
   fst (Start example_consts NewGrpcPlugin
     (quiet_world\<lparr>files := [''/var/lib/kubelet/device-plugins/sriovNet.sock''],
                  remove_error := (\<lambda>name. Some (errorString ''operation not permitted''))\<rparr>)) =
     Some (errorString ''failed to cleanup: operation not permitted'') \<and>
   cleanup NewGrpcPlugin (quiet_world\<lparr>vendor_devices := Inl (errorString ''unavailable'')\<rparr>) =
     (None, NewGrpcPlugin, quiet_world\<lparr>vendor_devices := Inl (errorString ''unavailable'')\<rparr>) \<and>
   fst (GetDevices example_consts NewGrpcPlugin
         (quiet_world\<lparr>vendor_devices := Inl (errorString ''unavailable'')\<rparr>)) =
     Some (errorString ''failed to handle GetDevices request: unavailable'') \<and>
   fst (Start example_consts NewGrpcPlugin
         (quiet_world\<lparr>vendor_devices := Inl (errorString ''unavailable'')\<rparr>)) =
     Some (errorString
            ''failed to get devices: failed to handle GetDevices request: unavailable'') \<and>
   cleanup NewGrpcPlugin (quiet_world\<lparr>register_error := Some (errorString ''rejected'')\<rparr>) =
     (None, NewGrpcPlugin, quiet_world\<lparr>register_error := Some (errorString ''rejected'')\<rparr>) \<and>
   fst (GetDevices example_consts NewGrpcPlugin
         (quiet_world\<lparr>register_error := Some (errorString ''rejected'')\<rparr>)) = None \<and>
   fst (RegisterDevicePlugin example_consts
         (fst (snd (GetDevices example_consts NewGrpcPlugin
            (quiet_world\<lparr>register_error := Some (errorString ''rejected'')\<rparr>))))
         (snd (snd (GetDevices example_consts NewGrpcPlugin
            (quiet_world\<lparr>register_error := Some (errorString ''rejected'')\<rparr>))))) =
     Some (errorString ''unable to register resource openshift.io/dpu with Kubelet: rejected'') \<and>
   fst (Start example_consts NewGrpcPlugin
         (quiet_world\<lparr>register_error := Some (errorString ''rejected'')\<rparr>)) =
     Some (errorString (''failed to register the device plugin: '' @
       ''unable to register resource openshift.io/dpu with Kubelet: rejected''))"
  using
    Start_aborts_or_completes
      [where nf = NewGrpcPlugin and w = quiet_world and K = example_consts and Devs = "[]"]
    Start_aborts_or_completes
      [where nf = NewGrpcPlugin and K = example_consts
         and w = "quiet_world\<lparr>files := [''/var/lib/kubelet/device-plugins/sriovNet.sock''],
                  remove_error := (\<lambda>name. Some (errorString ''operation not permitted''))\<rparr>"
         and err = "errorString ''operation not permitted''"
         and ?nf1.0 = NewGrpcPlugin
         and ?w1.0 = "quiet_world\<lparr>files := [''/var/lib/kubelet/device-plugins/sriovNet.sock''],
                  remove_error := (\<lambda>name. Some (errorString ''operation not permitted''))\<rparr>"]
    Start_aborts_or_completes
      [where nf = NewGrpcPlugin and K = example_consts
         and w = "quiet_world\<lparr>vendor_devices := Inl (errorString ''unavailable'')\<rparr>"
         and err = "errorString ''failed to handle GetDevices request: unavailable''"
         and ?nf1.0 = NewGrpcPlugin
         and ?w1.0 = "quiet_world\<lparr>vendor_devices := Inl (errorString ''unavailable'')\<rparr>"
         and ?nf2.0 = "fst (snd (GetDevices example_consts NewGrpcPlugin
                (quiet_world\<lparr>vendor_devices := Inl (errorString ''unavailable'')\<rparr>)))"
         and ?w2.0 = "snd (snd (GetDevices example_consts NewGrpcPlugin
                (quiet_world\<lparr>vendor_devices := Inl (errorString ''unavailable'')\<rparr>)))"]
    Start_aborts_or_completes
      [where nf = NewGrpcPlugin and K = example_consts
         and w = "quiet_world\<lparr>register_error := Some (errorString ''rejected'')\<rparr>"
         and err = "errorString
              ''unable to register resource openshift.io/dpu with Kubelet: rejected''"
         and ?nf1.0 = NewGrpcPlugin
         and ?w1.0 = "quiet_world\<lparr>register_error := Some (errorString ''rejected'')\<rparr>"
         and ?nf2.0 = "fst (snd (GetDevices example_consts NewGrpcPlugin
                (quiet_world\<lparr>register_error := Some (errorString ''rejected'')\<rparr>)))"
         and ?w2.0 = "snd (snd (GetDevices example_consts NewGrpcPlugin
                (quiet_world\<lparr>register_error := Some (errorString ''rejected'')\<rparr>)))"
         and ?nf3.0 = "fst (snd (Start example_consts NewGrpcPlugin
                (quiet_world\<lparr>register_error := Some (errorString ''rejected'')\<rparr>)))"
         and ?w3.0 = "snd (snd (Start example_consts NewGrpcPlugin
                (quiet_world\<lparr>register_error := Some (errorString ''rejected'')\<rparr>)))"]
  by (simp add: example_consts_def quiet_world_def NewGrpcPlugin_def
        Start_def cleanup_def os_Remove_def RegisterDevicePlugin_def net_Listen_def
        connectWithRetry_def Registration_Register_def grpc_NewServer_def
        RegisterDevicePluginServer_def grpc_Serve_def resourceName_def
        GetDevices_def ensureConnected_def grpc_DialContext_def grpc_Dial_def
        DeviceService_GetDevices_def VendorPluginSocketPath_def
        Let_def log_Info_def log_Error_def endpoint_path kubelet_path
      del: filepath_Join.simps)

end
